theory Spec2Isabelle
  imports Complex_Main "HOL-Library.AList"
begin

section \<open>JavaScript values\<close>

text \<open>
  The media items, Media entries and devices handled by the server are declared
  \<^verbatim>\<open>any\<close>; they are JSON data. A value is one of the JavaScript value kinds; an object is
  the list of its own properties in insertion order, with distinct keys (a lookup takes the
  first entry of a key). A finite number is a rational: the numbers of the JSON data (year,
  duration, rating, totalSize) and the numeric arguments of a tool (type, start, size).
  A \<^typ>\<open>char\<close> stands for one code unit below 256.
\<close>

datatype jsval =
    JUndefined
  | JNull
  | JBool bool
  | JNum rat
  | JStr string
  | JArr "jsval list"
  | JObj "(string \<times> jsval) list"

type_synonym obj = "(string \<times> jsval) list"

text \<open>What a \<^verbatim>\<open>throw\<close> carries: an \<^verbatim>\<open>Error\<close> with its message, a
  \<^verbatim>\<open>TypeError\<close> raised by the engine (an instance of Error as well), or any other value.\<close>

datatype exn = Error string | TypeError string | Thrown jsval

text \<open>\<^verbatim>\<open>error instanceof Error ? error.message : 'Unknown error'\<close>\<close>

fun error_message :: "exn \<Rightarrow> string" where
  "error_message (Error m) = m"
| "error_message (TypeError m) = m"
| "error_message (Thrown v) = ''Unknown error''"

text \<open>\<^verbatim>\<open>item.k\<close> on an object: the property's value, \<^verbatim>\<open>undefined\<close> when it has none.\<close>

definition obj_get :: "obj \<Rightarrow> string \<Rightarrow> jsval" where
  "obj_get item k = (case map_of item k of None \<Rightarrow> JUndefined | Some v \<Rightarrow> v)"

text \<open>\<^verbatim>\<open>item.k = v\<close> on an object: the value is replaced in place, a new key is appended.\<close>

definition obj_set :: "obj \<Rightarrow> string \<Rightarrow> jsval \<Rightarrow> obj" where
  "obj_set item k v = AList.update k v item"

text \<open>
  \<^verbatim>\<open>v.k\<close> on any value, for a name \<open>k\<close> that no prototype defines (the server reads only
  such names): reading a property of \<^verbatim>\<open>null\<close> or \<^verbatim>\<open>undefined\<close> throws a TypeError,
  a primitive or an array has no such property.
\<close>

fun get_prop :: "jsval \<Rightarrow> string \<Rightarrow> exn + jsval" where
  "get_prop JUndefined k =
     Inl (TypeError (''Cannot read properties of undefined (reading '' @
                     [CHR 0x27] @ k @ [CHR 0x27] @ '')''))"
| "get_prop JNull k =
     Inl (TypeError (''Cannot read properties of null (reading '' @
                     [CHR 0x27] @ k @ [CHR 0x27] @ '')''))"
| "get_prop (JObj kvs) k = Inr (obj_get kvs k)"
| "get_prop v k = Inr JUndefined"

text \<open>Truthiness, as \<^verbatim>\<open>!v\<close> and \<^verbatim>\<open>a && b\<close> see it.\<close>

fun truthy :: "jsval \<Rightarrow> bool" where
  "truthy JUndefined = False"
| "truthy JNull = False"
| "truthy (JBool b) = b"
| "truthy (JNum n) = (n \<noteq> 0)"
| "truthy (JStr s) = (s \<noteq> [])"
| "truthy (JArr xs) = True"
| "truthy (JObj kvs) = True"

text \<open>The decimal name of an array index.\<close>

fun index_key :: "nat \<Rightarrow> string" where
  "index_key n =
     (if n < 10 then [''0123456789'' ! n]
      else index_key (n div 10) @ [''0123456789'' ! (n mod 10)])"

text \<open>
  The own enumerable properties that an object spread \<^verbatim>\<open>{...v}\<close> copies: those of an
  object, the indexed elements of an array, the indexed code units of a string, none for
  the other values (spreading \<^verbatim>\<open>null\<close> or \<^verbatim>\<open>undefined\<close> copies nothing and does
  not throw).
\<close>

fun spread :: "jsval \<Rightarrow> obj" where
  "spread (JObj kvs) = kvs"
| "spread (JArr xs) = zip (map index_key [0..<length xs]) xs"
| "spread (JStr s) = zip (map index_key [0..<length s]) (map (\<lambda>c. JStr [c]) s)"
| "spread v = []"

text \<open>\<^verbatim>\<open>xs.map(f)\<close> with a callback that may throw: the first throw ends the loop.\<close>

fun map_exn :: "('a \<Rightarrow> exn + 'b) \<Rightarrow> 'a list \<Rightarrow> exn + 'b list" where
  "map_exn f [] = Inr []"
| "map_exn f (x # xs) =
     (case f x of
        Inl e \<Rightarrow> Inl e
      | Inr y \<Rightarrow> (case map_exn f xs of Inl e \<Rightarrow> Inl e | Inr ys \<Rightarrow> Inr (y # ys)))"

text \<open>A path of property reads into a JSON value, \<^verbatim>\<open>undefined\<close> where it leaves the value
  (used to state what a payload contains).\<close>

fun jprop :: "jsval \<Rightarrow> string \<Rightarrow> jsval" where
  "jprop (JObj kvs) k = obj_get kvs k"
| "jprop v k = JUndefined"

fun jpath :: "jsval \<Rightarrow> string list \<Rightarrow> jsval" where
  "jpath v [] = v"
| "jpath v (k # ks) = jpath (jprop v k) ks"

text \<open>The elements of an array (none for another value), its element at an index, the keys
  of an object.\<close>

fun jelems :: "jsval \<Rightarrow> jsval list" where
  "jelems (JArr xs) = xs"
| "jelems v = []"

definition jnth :: "jsval \<Rightarrow> nat \<Rightarrow> jsval" where
  "jnth v i = (if i < length (jelems v) then jelems v ! i else JUndefined)"

fun jkeys :: "jsval \<Rightarrow> string list" where
  "jkeys (JObj kvs) = map fst kvs"
| "jkeys v = []"

section \<open>Effects: calls on a collaborator, exceptions\<close>

text \<open>
  An asynchronous function is modelled by what it does: the calls it issues on its
  collaborator, in order, and how it settles (\<open>Inl\<close> a rejection or throw, \<open>Inr\<close> the value).
\<close>

type_synonym ('t, 'a) io = "'t list \<times> (exn + 'a)"

definition io_return :: "'a \<Rightarrow> ('t, 'a) io" where
  "io_return x = ([], Inr x)"

definition io_throw :: "exn \<Rightarrow> ('t, 'a) io" where
  "io_throw e = ([], Inl e)"

text \<open>A value computed without a call, which may throw.\<close>

definition io_lift :: "exn + 'a \<Rightarrow> ('t, 'a) io" where
  "io_lift r = ([], r)"

text \<open>\<^verbatim>\<open>await\<close> of a call on the collaborator, with the way the call settles.\<close>

definition io_call :: "'t \<Rightarrow> exn + 'a \<Rightarrow> ('t, 'a) io" where
  "io_call c r = ([c], r)"

definition io_bind :: "('t, 'a) io \<Rightarrow> ('a \<Rightarrow> ('t, 'b) io) \<Rightarrow> ('t, 'b) io" where
  "io_bind m f =
     (case snd m of
        Inl e \<Rightarrow> (fst m, Inl e)
      | Inr x \<Rightarrow> (fst m @ fst (f x), snd (f x)))"

text \<open>\<^verbatim>\<open>try { m } catch (error) { h(error) }\<close>\<close>

definition try_catch :: "('t, 'a) io \<Rightarrow> (exn \<Rightarrow> ('t, 'a) io) \<Rightarrow> ('t, 'a) io" where
  "try_catch m h =
     (case snd m of
        Inl e \<Rightarrow> (fst m @ fst (h e), snd (h e))
      | Inr x \<Rightarrow> m)"

section \<open>The logger\<close>

text \<open>
  \<^verbatim>\<open>Logger.info\<close>, \<^verbatim>\<open>Logger.warn\<close> and \<^verbatim>\<open>Logger.error\<close> build one line and append it to
  the log file with \<^verbatim>\<open>fs.appendFileSync\<close>, which throws when the write fails. In the tool
  handlers every log call is modelled. A call is identified by its level and by its message
  as the source writes it (a template keeps its \<^verbatim>\<open>${...}\<close> places: the values put in and
  the time stamp are not modelled); each call of a handler is made at most once in a run.
  The file system is a collaborator: a \<open>logger\<close> gives, for each call, whether the write
  returns (\<open>None\<close>) or what it throws.
  In the methods of the client (\<^verbatim>\<open>PlexClient\<close>, further down) the log writes are taken to
  return.
\<close>

datatype log_call = Log_info string | Log_warn string | Log_error string

type_synonym logger = "log_call \<Rightarrow> exn option"

definition log_write :: "logger \<Rightarrow> log_call \<Rightarrow> ('t, unit) io" where
  "log_write lg call = io_lift (case lg call of None \<Rightarrow> Inr () | Some e \<Rightarrow> Inl e)"

section \<open>The client contract\<close>

text \<open>The filter tags of the media-server SDK (\<^verbatim>\<open>Tag.Newest\<close>, ...).\<close>

datatype Tag = Newest | RecentlyAdded | RecentlyViewed | OnDeck | Unwatched | Collection

text \<open>A library is an entry of the SDK's typed directory; the server reads its key, title
  and type. What \<^verbatim>\<open>getLibraryContents\<close> resolves to is \<^verbatim>\<open>{ items, totalSize }\<close>.\<close>

record library =
  key :: string
  title :: string
  type :: string

record library_contents =
  items :: "obj list"
  totalSize :: rat

text \<open>
  \<^verbatim>\<open>IPlexClient\<close>: the tool handlers see a client through its methods only. Each field
  gives how the method settles for its arguments (the real client and the mock both
  implement it).
\<close>

record plex_client =
  getLibraries :: "exn + library list"
  getLibraryContents :: "string \<Rightarrow> rat \<Rightarrow> Tag \<Rightarrow> rat \<Rightarrow> rat \<Rightarrow> exn + library_contents"
  getMovies :: "exn + obj list"
  getSeasons :: "string \<Rightarrow> exn + obj list"
  getEpisodes :: "string \<Rightarrow> exn + obj list"
  search :: "string \<Rightarrow> exn + obj list"
  getWatchList :: "string option \<Rightarrow> exn + obj list"
  getDevices :: "exn + obj list"

datatype client_call =
    Call_getLibraries
  | Call_getLibraryContents string rat Tag rat rat
  | Call_getMovies
  | Call_getSeasons string
  | Call_getEpisodes string
  | Call_search string
  | Call_getWatchList "string option"
  | Call_getDevices

section \<open>Tool results\<close>

text \<open>
  The \<^verbatim>\<open>text\<close> of a content entry is either a string built by the handler or
  \<^verbatim>\<open>JSON.stringify(v, null, 2)\<close> of a value \<open>v\<close>, kept as the value (the serialisation
  leaves out the properties whose value is \<^verbatim>\<open>undefined\<close>).
\<close>

datatype payload = Plain string | Json jsval

text \<open>\<^verbatim>\<open>{ type: "text", text: ... }\<close>\<close>

datatype content_entry = TextContent payload

text \<open>\<open>isError\<close> holds when the result carries \<^verbatim>\<open>isError: true\<close>; a success has no such
  property.\<close>

record tool_result =
  content :: "content_entry list"
  isError :: bool

definition ok_result :: "jsval \<Rightarrow> tool_result" where
  "ok_result v = \<lparr>content = [TextContent (Json v)], isError = False\<rparr>"

definition error_result :: "string \<Rightarrow> tool_result" where
  "error_result msg = \<lparr>content = [TextContent (Plain msg)], isError = True\<rparr>"

text \<open>The value that a result's text serialises, \<^verbatim>\<open>undefined\<close> for a plain message.\<close>

definition payload_of :: "tool_result \<Rightarrow> jsval" where
  "payload_of r = (case content r of [TextContent (Json v)] \<Rightarrow> v | other \<Rightarrow> JUndefined)"

section \<open>Reshaping\<close>

text \<open>
  The projection of a media item that \<^verbatim>\<open>get-library-contents\<close> and \<^verbatim>\<open>get-watchlist\<close>
  both apply: the base fields, then the fields of a movie or of a show.
\<close>

definition reshape_media_item :: "obj \<Rightarrow> obj" where
  "reshape_media_item item =
     (let baseInfo =
        [(''id'', obj_get item ''ratingKey''),
         (''title'', obj_get item ''title''),
         (''year'', obj_get item ''year''),
         (''type'', obj_get item ''type'')]
      in if obj_get item ''type'' = JStr ''movie'' then
           baseInfo @
           [(''duration'', obj_get item ''duration''),
            (''rating'', obj_get item ''rating''),
            (''summary'', obj_get item ''summary'')]
         else if obj_get item ''type'' = JStr ''show'' then
           baseInfo @
           [(''seasons'', obj_get item ''childCount''),
            (''summary'', obj_get item ''summary'')]
         else baseInfo)"

text \<open>
  \<^verbatim>\<open>{...mediaItem, optimizedForStreaming:
     mediaItem.optimizedForStreaming !== undefined ? mediaItem.optimizedForStreaming : 1}\<close>
\<close>

definition ensure_optimized :: "jsval \<Rightarrow> exn + jsval" where
  "ensure_optimized mediaItem =
     (case get_prop mediaItem ''optimizedForStreaming'' of
        Inl e \<Rightarrow> Inl e
      | Inr v \<Rightarrow>
          Inr (JObj (obj_set (spread mediaItem) ''optimizedForStreaming''
                       (if v \<noteq> JUndefined then v else JNum 1))))"

text \<open>
  The callback that builds \<^verbatim>\<open>MediaContainer.Metadata\<close> in \<^verbatim>\<open>get-library-contents\<close>,
  \<^verbatim>\<open>get-movies\<close> and \<^verbatim>\<open>search\<close>: an array \<^verbatim>\<open>Media\<close> is mapped entry by entry, a
  falsy \<^verbatim>\<open>Media\<close> becomes one default entry, any other \<^verbatim>\<open>Media\<close> stays.
\<close>

definition normalize_media :: "obj \<Rightarrow> exn + obj" where
  "normalize_media item =
     (case obj_get item ''Media'' of
        JArr ms \<Rightarrow>
          (case map_exn ensure_optimized ms of
             Inl e \<Rightarrow> Inl e
           | Inr ms' \<Rightarrow> Inr (obj_set item ''Media'' (JArr ms')))
      | v \<Rightarrow>
          if \<not> truthy v
          then Inr (obj_set item ''Media'' (JArr [JObj [(''optimizedForStreaming'', JNum 1)]]))
          else Inr item)"

section \<open>The tool handlers\<close>

text \<open>A default parameter value: \<^verbatim>\<open>({ type = 1, ... })\<close> takes the default for
  \<^verbatim>\<open>undefined\<close>.\<close>

definition or_default :: "'a option \<Rightarrow> 'a \<Rightarrow> 'a" where
  "or_default v d = (case v of None \<Rightarrow> d | Some x \<Rightarrow> x)"

text \<open>\<^verbatim>\<open>String.prototype.trim\<close>: the white space and line terminator code units below 256
  are tab, LF, VT, FF, CR, space and no-break space.\<close>

definition is_js_whitespace :: "char \<Rightarrow> bool" where
  "is_js_whitespace c = (of_char c \<in> {9, 10, 11, 12, 13, 32, 160 :: nat})"

definition trim :: "string \<Rightarrow> string" where
  "trim s = rev (dropWhile is_js_whitespace (rev (dropWhile is_js_whitespace s)))"

text \<open>The conversion of the \<^verbatim>\<open>tag\<close> string to the SDK's enum, a chain of conditionals
  that ends in \<^verbatim>\<open>Tag.Newest\<close>.\<close>

definition tagEnum :: "string \<Rightarrow> Tag" where
  "tagEnum tag =
     (if tag = ''newest'' then Newest
      else if tag = ''recentlyAdded'' then RecentlyAdded
      else if tag = ''recentlyViewed'' then RecentlyViewed
      else if tag = ''onDeck'' then OnDeck
      else if tag = ''unwatched'' then Unwatched
      else if tag = ''collection'' then Collection
      else Newest)"

text \<open>Every handler logs at the start of its \<^verbatim>\<open>try\<close> block and again in its
  \<^verbatim>\<open>catch\<close> block, before it returns the error result; \<^verbatim>\<open>get-libraries\<close> logs
  before its \<^verbatim>\<open>try\<close> block instead, and once more after the client has returned.\<close>

definition get_libraries_handler ::
  "logger \<Rightarrow> plex_client \<Rightarrow> (client_call, tool_result) io" where
  "get_libraries_handler lg plexClient =
     io_bind (log_write lg (Log_info ''Getting libraries...'')) (\<lambda>_.
     try_catch
       (io_bind (io_call Call_getLibraries (getLibraries plexClient)) (\<lambda>libraries.
        io_bind (log_write lg (Log_info ''Libraries retrieved'')) (\<lambda>_.
        io_return (ok_result (JObj
          [(''libraries'', JArr (map (\<lambda>lib. JObj
              [(''id'', JStr (key lib)),
               (''title'', JStr (title lib)),
               (''type'', JStr (type lib))]) libraries))])))))
       (\<lambda>error.
        io_bind (log_write lg (Log_error ''Error getting libraries:'')) (\<lambda>_.
        io_return (error_result (''Error getting libraries: '' @ error_message error)))))"

definition get_library_contents_handler ::
  "logger \<Rightarrow> plex_client \<Rightarrow> string \<Rightarrow> rat option \<Rightarrow> string option \<Rightarrow> rat option
     \<Rightarrow> rat option \<Rightarrow> (client_call, tool_result) io" where
  "get_library_contents_handler lg plexClient libraryId type_arg tag_arg start_arg size_arg =
     (let type = or_default type_arg 1;
          tag = or_default tag_arg ''newest'';
          start = or_default start_arg 0;
          size = or_default size_arg 20
      in try_catch
       (io_bind (log_write lg (Log_info (''Getting library contents for library ${libraryId} '' @
                   ''with type=${type}, tag=${tag}, start=${start}, size=${size}''))) (\<lambda>_.
        io_bind
          (io_call (Call_getLibraryContents libraryId type (tagEnum tag) start size)
             (getLibraryContents plexClient libraryId type (tagEnum tag) start size))
          (\<lambda>result.
        let mediaItems = map reshape_media_item (items result) in
        io_bind (io_lift (map_exn normalize_media (items result))) (\<lambda>Metadata.
        io_return (ok_result (JObj
          [(''media'', JArr (map JObj mediaItems)),
           (''totalSize'', JNum (totalSize result)),
           (''object'', JObj
              [(''MediaContainer'', JObj
                 [(''content'', JStr ''library items''),
                  (''totalSize'', JNum (totalSize result)),
                  (''Metadata'', JArr (map JObj Metadata))])])]))))))
       (\<lambda>error.
        io_bind (log_write lg
                   (Log_error ''Error getting library contents for ${libraryId}:'')) (\<lambda>_.
        io_return
          (error_result (''Error getting library contents: '' @ error_message error)))))"

definition get_movies_handler ::
  "logger \<Rightarrow> plex_client \<Rightarrow> (client_call, tool_result) io" where
  "get_movies_handler lg plexClient =
     try_catch
       (io_bind (log_write lg (Log_info ''Getting movies...'')) (\<lambda>_.
        io_bind (io_call Call_getMovies (getMovies plexClient)) (\<lambda>movies.
        let movieItems = map (\<lambda>movie.
              [(''id'', obj_get movie ''ratingKey''),
               (''title'', obj_get movie ''title''),
               (''year'', obj_get movie ''year''),
               (''duration'', obj_get movie ''duration''),
               (''rating'', obj_get movie ''rating''),
               (''summary'', obj_get movie ''summary'')]) movies in
        io_bind (io_lift (map_exn normalize_media movies)) (\<lambda>Metadata.
        io_return (ok_result (JObj
          [(''movies'', JArr (map JObj movieItems)),
           (''object'', JObj
              [(''MediaContainer'', JObj
                 [(''content'', JStr ''movies''),
                  (''Metadata'', JArr (map JObj Metadata))])])]))))))
       (\<lambda>error.
        io_bind (log_write lg (Log_error ''Error getting movies:'')) (\<lambda>_.
        io_return (error_result (''Error getting movies: '' @ error_message error))))"

definition get_seasons_handler ::
  "logger \<Rightarrow> plex_client \<Rightarrow> string \<Rightarrow> (client_call, tool_result) io" where
  "get_seasons_handler lg plexClient showId =
     try_catch
       (io_bind (log_write lg (Log_info ''Getting seasons for show ${showId}'')) (\<lambda>_.
        io_bind (io_call (Call_getSeasons showId) (getSeasons plexClient showId)) (\<lambda>seasons.
        io_return (ok_result (JObj
          [(''seasons'', JArr (map (\<lambda>season. JObj
              [(''id'', obj_get season ''ratingKey''),
               (''title'', obj_get season ''title''),
               (''seasonNumber'', obj_get season ''index''),
               (''episodeCount'', obj_get season ''leafCount'')]) seasons))])))))
       (\<lambda>error.
        io_bind (log_write lg (Log_error ''Error getting seasons for show ${showId}:'')) (\<lambda>_.
        io_return (error_result (''Error getting seasons: '' @ error_message error))))"

definition get_episodes_handler ::
  "logger \<Rightarrow> plex_client \<Rightarrow> string \<Rightarrow> (client_call, tool_result) io" where
  "get_episodes_handler lg plexClient seasonId =
     try_catch
       (io_bind (log_write lg (Log_info ''Getting episodes for season ${seasonId}'')) (\<lambda>_.
        io_bind (io_call (Call_getEpisodes seasonId) (getEpisodes plexClient seasonId))
          (\<lambda>episodes.
        io_return (ok_result (JObj
          [(''episodes'', JArr (map (\<lambda>episode. JObj
              [(''id'', obj_get episode ''ratingKey''),
               (''title'', obj_get episode ''title''),
               (''seasonNumber'', obj_get episode ''parentIndex''),
               (''episodeNumber'', obj_get episode ''index''),
               (''duration'', obj_get episode ''duration''),
               (''summary'', obj_get episode ''summary'')]) episodes))])))))
       (\<lambda>error.
        io_bind (log_write lg
                   (Log_error ''Error getting episodes for season ${seasonId}:'')) (\<lambda>_.
        io_return (error_result (''Error getting episodes: '' @ error_message error))))"

text \<open>In \<^verbatim>\<open>search\<close> the check of the query comes first in the \<^verbatim>\<open>try\<close> block, before
  the log call, and the \<^verbatim>\<open>results\<close> projection reads the items after the
  \<^verbatim>\<open>Metadata\<close> callback has assigned their \<^verbatim>\<open>Media\<close>. The messages hold the query
  between double quotes (\<open>CHR 0x22\<close>).\<close>

definition search_handler ::
  "logger \<Rightarrow> plex_client \<Rightarrow> string \<Rightarrow> (client_call, tool_result) io" where
  "search_handler lg plexClient query =
     try_catch
       (if query = [] \<or> trim query = [] then
          io_return (error_result ''Error: Search query is required'')
        else
          io_bind (log_write lg (Log_info
                     (''Searching for '' @ [CHR 0x22] @ ''${query}'' @ [CHR 0x22]))) (\<lambda>_.
          io_bind (io_call (Call_search query) (search plexClient query)) (\<lambda>results.
          io_bind (io_lift (map_exn normalize_media results)) (\<lambda>Metadata.
          io_return (ok_result (JObj
            [(''results'', JArr (map (\<lambda>item. JObj
                [(''id'', obj_get item ''ratingKey''),
                 (''title'', obj_get item ''title''),
                 (''type'', obj_get item ''type''),
                 (''year'', obj_get item ''year'')]) Metadata)),
             (''object'', JObj
                [(''MediaContainer'', JObj
                   [(''content'', JStr ''search results''),
                    (''Metadata'', JArr (map JObj Metadata))])])]))))))
       (\<lambda>error.
        io_bind (log_write lg (Log_error
                   (''Error searching for '' @ [CHR 0x22] @ ''${query}'' @ [CHR 0x22] @ '':'')))
          (\<lambda>_.
        io_return (error_result (''Error searching: '' @ error_message error))))"

definition get_watchlist_handler ::
  "logger \<Rightarrow> plex_client \<Rightarrow> string option \<Rightarrow> (client_call, tool_result) io" where
  "get_watchlist_handler lg plexClient filter_arg =
     try_catch
       (io_bind (log_write lg
                   (Log_info ''Getting watchlist with filter: ${filter || 'none'}'')) (\<lambda>_.
        io_bind (io_call (Call_getWatchList filter_arg) (getWatchList plexClient filter_arg))
          (\<lambda>watchlist.
        io_return (ok_result (JObj
          [(''watchlist'', JArr (map (\<lambda>item. JObj (reshape_media_item item)) watchlist))])))))
       (\<lambda>error.
        io_bind (log_write lg
                   (Log_error ''Error getting watchlist with filter ${filter || 'none'}:'')) (\<lambda>_.
        io_return (error_result (''Error getting watchlist: '' @ error_message error))))"

definition get_devices_handler ::
  "logger \<Rightarrow> plex_client \<Rightarrow> (client_call, tool_result) io" where
  "get_devices_handler lg plexClient =
     try_catch
       (io_bind (log_write lg (Log_info ''Getting Plex devices...'')) (\<lambda>_.
        io_bind (io_call Call_getDevices (getDevices plexClient)) (\<lambda>devices.
        io_return (ok_result (JObj
          [(''devices'', JArr (map (\<lambda>device. JObj
              [(''id'', obj_get device ''clientIdentifier''),
               (''name'', obj_get device ''name''),
               (''product'', obj_get device ''product''),
               (''productVersion'', obj_get device ''productVersion''),
               (''platform'', obj_get device ''platform''),
               (''platformVersion'', obj_get device ''platformVersion''),
               (''device'', obj_get device ''device''),
               (''model'', obj_get device ''model''),
               (''vendor'', obj_get device ''vendor''),
               (''provides'', obj_get device ''provides''),
               (''owned'', obj_get device ''owned''),
               (''lastSeenAt'', obj_get device ''lastSeenAt''),
               (''publicAddress'', obj_get device ''publicAddress'')]) devices))])))))
       (\<lambda>error.
        io_bind (log_write lg (Log_error ''Error getting devices:'')) (\<lambda>_.
        io_return (error_result (''Error getting devices: '' @ error_message error))))"

text \<open>
  The tool registry: \<^verbatim>\<open>server.tool(name, schema, handler)\<close> registers eight handlers. An
  invocation names a tool and carries the arguments of its schema (an optional parameter
  may be absent).
\<close>

datatype tool_request =
    Get_libraries
  | Get_library_contents string "rat option" "string option" "rat option" "rat option"
  | Get_movies
  | Get_seasons string
  | Get_episodes string
  | Search string
  | Get_watchlist "string option"
  | Get_devices

fun tool_name :: "tool_request \<Rightarrow> string" where
  "tool_name Get_libraries = ''get-libraries''"
| "tool_name (Get_library_contents libraryId ty tag start sz) = ''get-library-contents''"
| "tool_name Get_movies = ''get-movies''"
| "tool_name (Get_seasons showId) = ''get-seasons''"
| "tool_name (Get_episodes seasonId) = ''get-episodes''"
| "tool_name (Search query) = ''search''"
| "tool_name (Get_watchlist flt) = ''get-watchlist''"
| "tool_name Get_devices = ''get-devices''"

fun call_tool ::
  "logger \<Rightarrow> plex_client \<Rightarrow> tool_request \<Rightarrow> (client_call, tool_result) io" where
  "call_tool lg c Get_libraries = get_libraries_handler lg c"
| "call_tool lg c (Get_library_contents libraryId ty tag start sz) =
     get_library_contents_handler lg c libraryId ty tag start sz"
| "call_tool lg c Get_movies = get_movies_handler lg c"
| "call_tool lg c (Get_seasons showId) = get_seasons_handler lg c showId"
| "call_tool lg c (Get_episodes seasonId) = get_episodes_handler lg c seasonId"
| "call_tool lg c (Search query) = search_handler lg c query"
| "call_tool lg c (Get_watchlist flt) = get_watchlist_handler lg c flt"
| "call_tool lg c Get_devices = get_devices_handler lg c"

text \<open>The log call in the \<^verbatim>\<open>catch\<close> block of each tool's handler.\<close>

fun catch_log :: "tool_request \<Rightarrow> log_call" where
  "catch_log Get_libraries = Log_error ''Error getting libraries:''"
| "catch_log (Get_library_contents libraryId ty tag start sz) =
     Log_error ''Error getting library contents for ${libraryId}:''"
| "catch_log Get_movies = Log_error ''Error getting movies:''"
| "catch_log (Get_seasons showId) = Log_error ''Error getting seasons for show ${showId}:''"
| "catch_log (Get_episodes seasonId) =
     Log_error ''Error getting episodes for season ${seasonId}:''"
| "catch_log (Search query) =
     Log_error (''Error searching for '' @ [CHR 0x22] @ ''${query}'' @ [CHR 0x22] @ '':'')"
| "catch_log (Get_watchlist flt) =
     Log_error ''Error getting watchlist with filter ${filter || 'none'}:''"
| "catch_log Get_devices = Log_error ''Error getting devices:''"

text \<open>How the client call that a tool delegates to settles, for that tool's arguments.\<close>

fun delegated :: "plex_client \<Rightarrow> tool_request \<Rightarrow> exn + unit" where
  "delegated c Get_libraries = map_sum id (\<lambda>_. ()) (getLibraries c)"
| "delegated c (Get_library_contents libraryId ty tag start sz) =
     map_sum id (\<lambda>_. ())
       (getLibraryContents c libraryId (or_default ty 1) (tagEnum (or_default tag ''newest''))
          (or_default start 0) (or_default sz 20))"
| "delegated c Get_movies = map_sum id (\<lambda>_. ()) (getMovies c)"
| "delegated c (Get_seasons showId) = map_sum id (\<lambda>_. ()) (getSeasons c showId)"
| "delegated c (Get_episodes seasonId) = map_sum id (\<lambda>_. ()) (getEpisodes c seasonId)"
| "delegated c (Search query) = map_sum id (\<lambda>_. ()) (search c query)"
| "delegated c (Get_watchlist flt) = map_sum id (\<lambda>_. ()) (getWatchList c flt)"
| "delegated c Get_devices = map_sum id (\<lambda>_. ()) (getDevices c)"

section \<open>The mock client\<close>

text \<open>\<^verbatim>\<open>ToIntegerOrInfinity\<close> of a finite number: the fraction is cut off, towards zero.\<close>

definition to_integer :: "rat \<Rightarrow> int" where
  "to_integer x = (if x < 0 then \<lceil>x\<rceil> else \<lfloor>x\<rfloor>)"

text \<open>
  \<^verbatim>\<open>Array.prototype.slice(start, stop)\<close>: both bounds are made integers, a negative bound
  counts from the end of the array, and both are clamped to the array.
\<close>

definition slice :: "'a list \<Rightarrow> rat \<Rightarrow> rat \<Rightarrow> 'a list" where
  "slice xs start stop =
     (let len = int (length xs);
          relativeStart = to_integer start;
          k = (if relativeStart < 0 then max (len + relativeStart) 0 else min relativeStart len);
          relativeEnd = to_integer stop;
          final = (if relativeEnd < 0 then max (len + relativeEnd) 0 else min relativeEnd len)
      in take (nat (final - k)) (drop (nat k) xs))"

definition mock_movie :: "string \<Rightarrow> string \<Rightarrow> rat \<Rightarrow> rat \<Rightarrow> rat \<Rightarrow> string \<Rightarrow> obj" where
  "mock_movie ratingKey title_text year duration rating summary =
     [(''ratingKey'', JStr ratingKey),
      (''title'', JStr title_text),
      (''year'', JNum year),
      (''type'', JStr ''movie''),
      (''duration'', JNum duration),
      (''rating'', JNum rating),
      (''summary'', JStr summary),
      (''Media'', JArr [JObj [(''optimizedForStreaming'', JNum 1)]])]"

text \<open>The fixture \<^verbatim>\<open>contents\<close> of \<^verbatim>\<open>MockPlexClient.getLibraryContents\<close>.\<close>

definition mock_contents :: "obj list" where
  "mock_contents =
     [mock_movie ''101'' ''The Matrix'' 1999 136 8.7
        ''A computer hacker learns about the true nature of reality.'',
      mock_movie ''102'' ''Inception'' 2010 148 8.8
        ''A thief who steals corporate secrets through the use of dream-sharing technology.'',
      [(''ratingKey'', JStr ''103''),
       (''title'', JStr ''Breaking Bad''),
       (''year'', JNum 2008),
       (''type'', JStr ''show''),
       (''childCount'', JNum 5),
       (''summary'', JStr ''A high school chemistry teacher turned methamphetamine manufacturer.''),
       (''Media'', JArr [JObj [(''optimizedForStreaming'', JNum 1)]])],
      mock_movie ''104'' ''The Shawshank Redemption'' 1994 142 9.3
        (''Two imprisoned men bond over a number of years, finding solace and eventual '' @
         ''redemption through acts of common decency.''),
      mock_movie ''105'' ''The Dark Knight'' 2008 152 9.0
        (''When the menace known as the Joker wreaks havoc and chaos on the people of '' @
         ''Gotham, Batman must accept one of the greatest psychological and physical '' @
         ''tests of his ability to fight injustice.''),
      mock_movie ''301'' ''Lethal Weapon'' 1987 110 7.6
        ''A veteran cop reluctantly teams with a reckless partner.'',
      mock_movie ''302'' ''Lethal Weapon 2'' 1989 114 7.2
        ''Riggs and Murtaugh protect a federal witness.'']"

text \<open>\<^verbatim>\<open>contents.slice(start, start + size)\<close>. The sum is the exact one. The code's sum
  is a double: for an integer start and an integer size it differs from the exact sum only
  beyond \<open>2 ^ 53\<close>, where \<^verbatim>\<open>slice\<close> clamps both to the same index, so that the same items
  are selected.\<close>

definition MockPlexClient_getLibraryContents ::
  "string \<Rightarrow> rat \<Rightarrow> Tag \<Rightarrow> rat \<Rightarrow> rat \<Rightarrow> exn + library_contents" where
  "MockPlexClient_getLibraryContents libraryId type_code tag start sz =
     (let paginatedContents = slice mock_contents start (start + sz)
      in Inr \<lparr>items = paginatedContents, totalSize = of_nat (length mock_contents)\<rparr>)"

text \<open>\<^verbatim>\<open>String.prototype.toLowerCase\<close> on code units below 256: the letters A to Z and the
  capital letters from U+00C0 to U+00DE, the multiplication sign U+00D7 apart.\<close>

definition to_lower_char :: "char \<Rightarrow> char" where
  "to_lower_char c =
     (let n = (of_char c :: nat)
      in if (65 \<le> n \<and> n \<le> 90) \<or> (192 \<le> n \<and> n \<le> 222 \<and> n \<noteq> 215)
         then char_of (n + 32) else c)"

definition toLowerCase :: "string \<Rightarrow> string" where
  "toLowerCase s = map to_lower_char s"

text \<open>The fixture \<^verbatim>\<open>watchlist\<close> of \<^verbatim>\<open>MockPlexClient.getWatchList\<close>; its entries have
  no \<^verbatim>\<open>Media\<close>.\<close>

definition mock_watchlist :: "obj list" where
  "mock_watchlist =
     [[(''ratingKey'', JStr ''501''),
       (''title'', JStr ''Dune''),
       (''year'', JNum 2021),
       (''type'', JStr ''movie''),
       (''duration'', JNum 155),
       (''rating'', JNum 8.0),
       (''summary'', JStr (''A noble family becomes embroiled in a war for control over '' @
          ''the galaxy's most valuable asset.''))],
      [(''ratingKey'', JStr ''502''),
       (''title'', JStr ''The Last of Us''),
       (''year'', JNum 2023),
       (''type'', JStr ''show''),
       (''childCount'', JNum 1),
       (''summary'', JStr (''After a global pandemic destroys civilization, a hardened '' @
          ''survivor takes charge of a 14-year-old girl who may be humanity's last hope.''))],
      [(''ratingKey'', JStr ''503''),
       (''title'', JStr ''Oppenheimer''),
       (''year'', JNum 2023),
       (''type'', JStr ''movie''),
       (''duration'', JNum 180),
       (''rating'', JNum 8.5),
       (''summary'', JStr (''The story of American scientist J. Robert Oppenheimer and '' @
          ''his role in the development of the atomic bomb.''))]]"

text \<open>\<^verbatim>\<open>filter?.toLowerCase() === 'available'\<close> is false for an absent filter.\<close>

definition MockPlexClient_getWatchList :: "string option \<Rightarrow> exn + obj list" where
  "MockPlexClient_getWatchList filter_arg =
     (if map_option toLowerCase filter_arg = Some ''available'' then
        Inr (filter (\<lambda>item. obj_get item ''ratingKey'' = JStr ''501''
                          \<or> obj_get item ''ratingKey'' = JStr ''503'') mock_watchlist)
      else Inr mock_watchlist)"

text \<open>The ids of a list of items.\<close>

definition ratingKeys :: "obj list \<Rightarrow> jsval set" where
  "ratingKeys xs = set (map (\<lambda>item. obj_get item ''ratingKey'') xs)"

text \<open>The other methods of the mock return their fixtures.\<close>

definition MockPlexClient_getLibraries :: "exn + library list" where
  "MockPlexClient_getLibraries =
     Inr [\<lparr>key = ''1'', title = ''Movies'', type = ''movie''\<rparr>,
          \<lparr>key = ''2'', title = ''TV Shows'', type = ''show''\<rparr>]"

definition MockPlexClient_getMovies :: "exn + obj list" where
  "MockPlexClient_getMovies =
     Inr [mock_movie ''101'' ''The Matrix'' 1999 136 8.7
            ''A computer hacker learns about the true nature of reality.'',
          mock_movie ''102'' ''Inception'' 2010 148 8.8
            ''A thief who steals corporate secrets through the use of dream-sharing technology.'',
          mock_movie ''104'' ''The Shawshank Redemption'' 1994 142 9.3
            (''Two imprisoned men bond over a number of years, finding solace and eventual '' @
             ''redemption through acts of common decency.''),
          mock_movie ''105'' ''The Dark Knight'' 2008 152 9.0
            (''When the menace known as the Joker wreaks havoc and chaos on the people of '' @
             ''Gotham, Batman must accept one of the greatest psychological and physical '' @
             ''tests of his ability to fight injustice.'')]"

definition MockPlexClient_getSeasons :: "string \<Rightarrow> exn + obj list" where
  "MockPlexClient_getSeasons showId =
     Inr [[(''ratingKey'', JStr ''201''), (''title'', JStr ''Season 1''), (''index'', JNum 1),
           (''leafCount'', JNum 10), (''type'', JStr ''season'')],
          [(''ratingKey'', JStr ''202''), (''title'', JStr ''Season 2''), (''index'', JNum 2),
           (''leafCount'', JNum 12), (''type'', JStr ''season'')]]"

definition MockPlexClient_getEpisodes :: "string \<Rightarrow> exn + obj list" where
  "MockPlexClient_getEpisodes seasonId =
     Inr [[(''ratingKey'', JStr ''301''), (''title'', JStr ''Pilot''), (''parentIndex'', JNum 1),
           (''index'', JNum 1), (''duration'', JNum 45), (''summary'', JStr ''First episode.''),
           (''type'', JStr ''episode'')],
          [(''ratingKey'', JStr ''302''), (''title'', JStr ''Second Episode''),
           (''parentIndex'', JNum 1), (''index'', JNum 2), (''duration'', JNum 43),
           (''summary'', JStr ''Second episode.''), (''type'', JStr ''episode'')]]"

text \<open>\<^verbatim>\<open>String.prototype.includes\<close>: the second string occurs in the first.\<close>

fun string_includes :: "string \<Rightarrow> string \<Rightarrow> bool" where
  "string_includes [] sub = (sub = [])"
| "string_includes (c # cs) sub = (take (length sub) (c # cs) = sub \<or> string_includes cs sub)"

definition mock_search_result :: "string \<Rightarrow> string \<Rightarrow> rat \<Rightarrow> string \<Rightarrow> string \<Rightarrow> obj" where
  "mock_search_result ratingKey title_text year type_text originallyAvailableAt =
     [(''ratingKey'', JStr ratingKey),
      (''title'', JStr title_text),
      (''year'', JNum year),
      (''type'', JStr type_text),
      (''Media'', JArr [JObj [(''optimizedForStreaming'', JNum 1)]]),
      (''originallyAvailableAt'', JStr originallyAvailableAt)]"

definition mock_search_results :: "obj list" where
  "mock_search_results =
     [mock_search_result ''101'' ''The Matrix'' 1999 ''movie'' ''1999-03-31'',
      mock_search_result ''201'' ''Breaking Bad'' 2008 ''show'' ''2008-01-20'',
      mock_search_result ''301'' ''Lethal Weapon'' 1987 ''movie'' ''1987-03-06'',
      mock_search_result ''302'' ''Lethal Weapon 2'' 1989 ''movie'' ''1989-07-07'']"

text \<open>Every fixture title is a string, so \<^verbatim>\<open>item.title.toLowerCase()\<close> does not throw.\<close>

definition MockPlexClient_search :: "string \<Rightarrow> exn + obj list" where
  "MockPlexClient_search query =
     (if query \<noteq> [] then
        Inr (filter (\<lambda>item.
               case obj_get item ''title'' of
                 JStr t \<Rightarrow> string_includes (toLowerCase t) (toLowerCase query)
               | v \<Rightarrow> False) mock_search_results)
      else Inr mock_search_results)"

text \<open>\<open>now\<close> is \<^verbatim>\<open>new Date().getTime()\<close>.\<close>

definition MockPlexClient_getDevices :: "rat \<Rightarrow> exn + obj list" where
  "MockPlexClient_getDevices now =
     Inr [[(''id'', JNum 1),
           (''name'', JStr ''Mock iPhone''),
           (''platform'', JStr ''iOS''),
           (''clientIdentifier'', JStr ''mock-iphone-1''),
           (''createdAt'', JNum 1654131230),
           (''product'', JStr ''Plex for iOS''),
           (''productVersion'', JStr ''8.0''),
           (''platformVersion'', JStr ''17.0''),
           (''device'', JStr ''iPhone''),
           (''model'', JStr ''iPhone 14''),
           (''vendor'', JStr ''Apple''),
           (''provides'', JArr [JStr ''player'', JStr ''controller'']),
           (''owned'', JBool True),
           (''lastSeenAt'', JNum now),
           (''publicAddress'', JStr ''192.168.1.100'')],
          [(''id'', JNum 2),
           (''name'', JStr ''Mock Android TV''),
           (''platform'', JStr ''Android''),
           (''clientIdentifier'', JStr ''mock-android-tv-1''),
           (''createdAt'', JNum 1654131240),
           (''product'', JStr ''Plex for Android TV''),
           (''productVersion'', JStr ''9.0''),
           (''platformVersion'', JStr ''12.0''),
           (''device'', JStr ''Android TV''),
           (''model'', JStr ''SHIELD Android TV''),
           (''vendor'', JStr ''NVIDIA''),
           (''provides'', JArr [JStr ''player'']),
           (''owned'', JBool True),
           (''lastSeenAt'', JNum now),
           (''publicAddress'', JStr ''192.168.1.101'')]]"

text \<open>The mock as a client of the tool handlers.\<close>

definition MockPlexClient :: "rat \<Rightarrow> plex_client" where
  "MockPlexClient now =
     \<lparr>getLibraries = MockPlexClient_getLibraries,
      getLibraryContents = MockPlexClient_getLibraryContents,
      getMovies = MockPlexClient_getMovies,
      getSeasons = MockPlexClient_getSeasons,
      getEpisodes = MockPlexClient_getEpisodes,
      search = MockPlexClient_search,
      getWatchList = MockPlexClient_getWatchList,
      getDevices = MockPlexClient_getDevices now\<rparr>"

section \<open>The client of the media server\<close>

text \<open>
  \<^verbatim>\<open>PlexClient\<close> talks to the media server through the SDK and through \<^verbatim>\<open>fetch\<close>.
  The server is a collaborator: \<open>upstream\<close> gives how each request settles, and a method
  records the requests it issues. The shapes of the SDK's responses are those the
  methods read: \<^verbatim>\<open>response.object?.mediaContainer?.device\<close> and the like. The server URL
  and the access token are the same in every request and are not part of the records.
\<close>

record 'c sdk_object =
  mediaContainer :: "'c option"

record 'c sdk_response =
  object :: "'c sdk_object option"

record directory_container =
  directory :: "library list option"

record device_container =
  device :: "obj list option"

record metadata_container =
  metadata :: "obj list option"

text \<open>\<^verbatim>\<open>interface PlexResponse { MediaContainer: { Metadata: any[]; totalSize?: number } }\<close>,
  read with \<^verbatim>\<open>data.MediaContainer?.Metadata\<close>.\<close>

datatype PlexResponse_MediaContainer =
  PlexResponse_MediaContainer (Metadata: "obj list option") (response_totalSize: "rat option")

datatype PlexResponse =
  PlexResponse (MediaContainer: "PlexResponse_MediaContainer option")

text \<open>What \<^verbatim>\<open>fetch\<close> resolves to; \<open>json\<close> is how \<^verbatim>\<open>response.json()\<close> settles.\<close>

record fetch_response =
  ok :: bool
  statusText :: string
  json :: "exn + PlexResponse"

text \<open>A number as \<^verbatim>\<open>parseInt\<close> returns it: finite, \<^verbatim>\<open>NaN\<close> or an infinity. (The model
  does not tell \<^verbatim>\<open>-0\<close> from \<^verbatim>\<open>0\<close>; both are written \<^verbatim>\<open>0\<close> in a request.)\<close>

datatype jsnumber = Finite rat | NaN | PosInfinity | NegInfinity

text \<open>
  The requests. A section key is \<^verbatim>\<open>parseInt(id, 10)\<close>.
  \<open>Fetch_library section type start size\<close> is the GET of
  \<^verbatim>\<open>/library/sections/<section>/all?type=..&X-Plex-Container-Start=..&X-Plex-Container-Size=..\<close>;
  \<open>Fetch_playMedia machineIdentifier key commandID\<close> is the GET of
  \<^verbatim>\<open>/player/playback/playMedia\<close> with these parameters.
\<close>

datatype upstream_call =
    SDK_getAllLibraries
  | SDK_getDevices
  | SDK_getLibraryItems jsnumber rat Tag
  | Fetch_library jsnumber rat rat rat
  | Fetch_playMedia string string int

text \<open>\<open>library_settle_time i\<close> is the time at which the \<open>i\<close>-th of the library requests
  that \<^verbatim>\<open>getMovies\<close> runs together settles.\<close>

record upstream =
  sdk_getAllLibraries :: "exn + directory_container sdk_response"
  sdk_getDevices :: "exn + device_container sdk_response"
  sdk_getLibraryItems :: "jsnumber \<Rightarrow> rat \<Rightarrow> Tag \<Rightarrow> exn + metadata_container sdk_response"
  fetch_library :: "jsnumber \<Rightarrow> rat \<Rightarrow> rat \<Rightarrow> rat \<Rightarrow> exn + fetch_response"
  fetch_playMedia :: "string \<Rightarrow> string \<Rightarrow> int \<Rightarrow> exn + fetch_response"
  library_settle_time :: "nat \<Rightarrow> nat"

text \<open>The double nearest to an integer \<open>n \<ge> 0\<close>, ties to the even mantissa: exact below
  \<open>2 ^ 53\<close>, then 53 significant bits are kept, and \<^verbatim>\<open>Infinity\<close> is reached at
  \<open>2 ^ 1024\<close>.\<close>

function bit_length :: "int \<Rightarrow> nat" where
  "bit_length n = (if n \<le> 0 then 0 else Suc (bit_length (n div 2)))"
  by pat_completeness auto
termination
  by (relation "measure nat") auto

declare bit_length.simps [simp del]

definition to_double :: "int \<Rightarrow> jsnumber" where
  "to_double n =
     (if n < 2 ^ 53 then Finite (of_int n)
      else
        let e = bit_length n - 53;
            q = n div 2 ^ e;
            r = n mod 2 ^ e;
            rounded = (if 2 ^ e < 2 * r \<or> (2 * r = 2 ^ e \<and> odd q) then q + 1 else q) * 2 ^ e
        in if 2 ^ 1024 \<le> rounded then PosInfinity else Finite (of_int rounded))"

fun negate :: "jsnumber \<Rightarrow> jsnumber" where
  "negate (Finite x) = Finite (- x)"
| "negate NaN = NaN"
| "negate PosInfinity = NegInfinity"
| "negate NegInfinity = PosInfinity"

text \<open>\<^verbatim>\<open>parseInt(s, 10)\<close>: leading white space is skipped, a sign is read, then the longest
  run of decimal digits; \<^verbatim>\<open>NaN\<close> when there is no digit. The digits are read exactly and
  the result is the nearest double (beyond twenty digits the language lets an
  implementation read the further ones as zeros; the model reads them all).\<close>

definition is_digit :: "char \<Rightarrow> bool" where
  "is_digit c = (48 \<le> (of_char c :: nat) \<and> (of_char c :: nat) \<le> 57)"

definition digits_value :: "string \<Rightarrow> int" where
  "digits_value ds = foldl (\<lambda>acc c. 10 * acc + (int (of_char c) - 48)) 0 ds"

definition parseInt :: "string \<Rightarrow> jsnumber" where
  "parseInt s =
     (let t = dropWhile is_js_whitespace s;
          negative = (t \<noteq> [] \<and> hd t = CHR ''-'');
          u = (if t \<noteq> [] \<and> (hd t = CHR ''-'' \<or> hd t = CHR ''+'') then tl t else t);
          ds = takeWhile is_digit u
      in if ds = [] then NaN
         else if negative then negate (to_double (digits_value ds))
         else to_double (digits_value ds))"

text \<open>
  \<^verbatim>\<open>Promise.all\<close> over calls that have all been started: every request is issued, in the
  order of the list. The result is the list of the values when every call fulfils;
  otherwise it is the rejection that settles first in time (\<open>settle_time i\<close> is the time
  at which the \<open>i\<close>-th call settles).
\<close>

fun rejections :: "nat \<Rightarrow> (exn + 'a) list \<Rightarrow> (nat \<times> exn) list" where
  "rejections i [] = []"
| "rejections i (Inl e # rs) = (i, e) # rejections (Suc i) rs"
| "rejections i (Inr x # rs) = rejections (Suc i) rs"

fun fulfilments :: "(exn + 'a) list \<Rightarrow> 'a list" where
  "fulfilments [] = []"
| "fulfilments (Inl e # rs) = fulfilments rs"
| "fulfilments (Inr x # rs) = x # fulfilments rs"

definition promise_all :: "(nat \<Rightarrow> nat) \<Rightarrow> ('t, 'a) io list \<Rightarrow> ('t, 'a list) io" where
  "promise_all settle_time ms =
     (concat (map fst ms),
      case rejections 0 (map snd ms) of
        [] \<Rightarrow> Inr (fulfilments (map snd ms))
      | r # rs \<Rightarrow> Inl (snd (arg_min_list (\<lambda>(i, e). settle_time i) (r # rs))))"


definition PlexClient_getLibraryContents ::
  "upstream \<Rightarrow> string \<Rightarrow> rat \<Rightarrow> Tag \<Rightarrow> rat \<Rightarrow> rat \<Rightarrow> (upstream_call, library_contents) io" where
  "PlexClient_getLibraryContents up libraryId type_code tag start sz =
     try_catch
       (let numericId = parseInt libraryId in
        io_bind (io_call (Fetch_library numericId type_code start sz)
                   (fetch_library up numericId type_code start sz)) (\<lambda>response.
        if \<not> ok response then
          io_throw (Error (''Failed to fetch library contents: '' @ statusText response))
        else
          io_bind (io_lift (json response)) (\<lambda>data.
          let found = (case MediaContainer data of
                         None \<Rightarrow> []
                       | Some container \<Rightarrow> or_default (Metadata container) []);
              total = (case MediaContainer data of
                         None \<Rightarrow> of_nat (length found)
                       | Some container \<Rightarrow>
                           (case response_totalSize container of
                              None \<Rightarrow> of_nat (length found)
                            | Some n \<Rightarrow> if n = 0 then of_nat (length found) else n))
          in io_return \<lparr>items = found, totalSize = total\<rparr>)))
       (\<lambda>error. io_throw error)"





section \<open>The HTTP endpoints\<close>

text \<open>
  The server keeps one variable, \<^verbatim>\<open>sseTransport\<close>, \<^verbatim>\<open>null\<close> at the start. A transport
  is identified by the response stream it was created on. What the SDK's transport and
  server do with a connection or a message is theirs; the endpoints' own effects are the
  responses they send and the calls they make.
\<close>

record server_state =
  sseTransport :: "nat option"

datatype http_request = GET_sse nat | POST_messages jsval

datatype server_effect =
    Server_connect nat
  | HandlePostMessage nat jsval
  | Respond_json nat jsval

definition initial_state :: server_state where
  "initial_state = \<lparr>sseTransport = None\<rparr>"

fun handle_request :: "server_state \<Rightarrow> http_request \<Rightarrow> server_state \<times> server_effect list" where
  "handle_request st (GET_sse res) = (st\<lparr>sseTransport := Some res\<rparr>, [Server_connect res])"
| "handle_request st (POST_messages body) =
     (case sseTransport st of
        None \<Rightarrow> (st, [Respond_json 400 (JObj [(''error'', JStr ''No active SSE connection'')])])
      | Some transport \<Rightarrow> (st, [HandlePostMessage transport body]))"

text \<open>The requests are handled one after the other; the effects of each are kept apart.\<close>

fun serve :: "server_state \<Rightarrow> http_request list \<Rightarrow> server_state \<times> server_effect list list" where
  "serve st [] = (st, [])"
| "serve st (r # rs) =
     (let (st', effects) = handle_request st r;
          (st'', rest) = serve st' rs
      in (st'', effects # rest))"

section \<open>Example collaborators\<close>

text \<open>
  A media server with one show library and one device, whose library requests are
  answered with the same three items whatever page is asked for and without a
  \<^verbatim>\<open>totalSize\<close>, and whose library-items request finds nothing.
\<close>

definition example_items :: "obj list" where
  "example_items =
     [[(''ratingKey'', JStr ''11''), (''title'', JStr ''Alien''), (''type'', JStr ''movie'')],
      [(''ratingKey'', JStr ''12''), (''title'', JStr ''Brazil''), (''type'', JStr ''movie'')],
      [(''ratingKey'', JStr ''13''), (''title'', JStr ''Cube''), (''type'', JStr ''movie'')]]"

definition example_upstream :: upstream where
  "example_upstream =
     \<lparr>sdk_getAllLibraries =
        Inr \<lparr>object = Some \<lparr>mediaContainer = Some
          \<lparr>directory = Some [\<lparr>key = ''2'', title = ''TV Shows'', type = ''show''\<rparr>]\<rparr>\<rparr>\<rparr>,
      sdk_getDevices =
        Inr \<lparr>object = Some \<lparr>mediaContainer = Some
          \<lparr>device = Some [[(''name'', JStr ''Living room''),
                           (''clientIdentifier'', JStr ''tv-1'')]]\<rparr>\<rparr>\<rparr>,
      sdk_getLibraryItems = (\<lambda>sectionKey type_code tag.
        Inr \<lparr>object = Some \<lparr>mediaContainer = Some \<lparr>metadata = Some []\<rparr>\<rparr>\<rparr>),
      fetch_library = (\<lambda>section type_code start sz.
        Inr \<lparr>ok = True, statusText = ''OK'',
             json = Inr (PlexResponse (Some
               (PlexResponse_MediaContainer (Some example_items) None)))\<rparr>),
      fetch_playMedia = (\<lambda>machineIdentifier path commandID.
        Inr \<lparr>ok = True, statusText = ''OK'', json = Inr (PlexResponse None)\<rparr>),
      library_settle_time = (\<lambda>i. i)\<rparr>"

text \<open>A server whose library holds the three items and that answers a library request with
  the page asked for, again without a \<^verbatim>\<open>totalSize\<close>.\<close>

definition paging_upstream :: upstream where
  "paging_upstream =
     example_upstream
       \<lparr>fetch_library := (\<lambda>section type_code start sz.
          Inr \<lparr>ok = True, statusText = ''OK'',
               json = Inr (PlexResponse (Some
                 (PlexResponse_MediaContainer
                    (Some (slice example_items start (start + sz))) None)))\<rparr>)\<rparr>"


text \<open>The mock client, except that a library holds a movie with two Media entries (the
  first without \<^verbatim>\<open>optimizedForStreaming\<close>), a show without \<^verbatim>\<open>Media\<close> and a clip.\<close>

definition example_client :: plex_client where
  "example_client =
     (MockPlexClient 0)
       \<lparr>getLibraryContents := (\<lambda>libraryId type_code tag start sz.
          Inr \<lparr>items =
                 [[(''ratingKey'', JStr ''21''), (''title'', JStr ''Heat''), (''year'', JNum 1995),
                   (''type'', JStr ''movie''), (''duration'', JNum 170),
                   (''Media'', JArr [JObj [(''bitrate'', JNum 1000)],
                                    JObj [(''optimizedForStreaming'', JNum 0)]])],
                  [(''ratingKey'', JStr ''22''), (''title'', JStr ''Lost''), (''year'', JNum 2004),
                   (''type'', JStr ''show''), (''childCount'', JNum 6)],
                  [(''ratingKey'', JStr ''23''), (''title'', JStr ''Trailer''),
                   (''type'', JStr ''clip''), (''duration'', JNum 2)]],
               totalSize = 3\<rparr>)\<rparr>"

text \<open>A file system on which every log write returns, and one on which the writes of
  \<^verbatim>\<open>Logger.error\<close> throw.\<close>

definition quiet_logger :: logger where
  "quiet_logger = (\<lambda>call. None)"

definition error_log_fails :: logger where
  "error_log_fails =
     (\<lambda>call. case call of
               Log_error m \<Rightarrow> Some (Error ''ENOSPC: no space left on device, write'')
             | other \<Rightarrow> None)"

text \<open>What \<^verbatim>\<open>get-library-contents\<close> returns for that client and the default arguments.\<close>

definition example_result :: tool_result where
  "example_result =
     projr (snd (get_library_contents_handler quiet_logger example_client
                   ''1'' None None None None))"

text \<open>The mock client, except that listing the libraries and reading a library fail.\<close>

definition failing_client :: plex_client where
  "failing_client =
     (MockPlexClient 0)
       \<lparr>getLibraries := Inl (Error ''connect ECONNREFUSED''),
        getLibraryContents := (\<lambda>libraryId type_code tag start sz.
          Inl (Error ''connect ECONNREFUSED''))\<rparr>"


section \<open>Properties of the effect combinators and of the JavaScript values\<close>

lemmas io_defs = io_return_def io_throw_def io_lift_def io_call_def io_bind_def try_catch_def

lemma log_write_returns: "lg call = None \<Longrightarrow> log_write lg call = ([], Inr ())"
  by (simp add: log_write_def io_lift_def)

lemma log_write_throws: "lg call = Some e \<Longrightarrow> log_write lg call = ([], Inl e)"
  by (simp add: log_write_def io_lift_def)

lemma log_write_cases:
  "log_write lg call = ([], Inr ()) \<or> (\<exists>e. log_write lg call = ([], Inl e))"
  by (cases "lg call") (simp_all add: log_write_def io_lift_def)

lemma try_catch_returns:
  assumes "\<And>e. \<exists>r. snd (h e) = Inr r"
  shows "\<exists>r. snd (try_catch m h) = Inr r"
  using assms by (cases "snd m") (auto simp: try_catch_def)

lemma try_catch_failed:
  "snd m = Inl e \<Longrightarrow> try_catch m h = (fst m @ fst (h e), snd (h e))"
  by (simp add: try_catch_def)

lemma io_bind_call_failed:
  "r = Inl e \<Longrightarrow> io_bind (io_call c r) f = ([c], Inl e)"
  by (simp add: io_bind_def io_call_def)

lemma obj_get_obj_set: "obj_get (obj_set item k v) k = v"
  by (simp add: obj_get_def obj_set_def update_conv')

lemma get_prop_jprop: "get_prop v k = Inr w \<Longrightarrow> w = jprop v k"
  by (cases v) auto

lemma map_exn_Inr:
  "map_exn f xs = Inr ys \<Longrightarrow> list_all2 (\<lambda>x y. f x = Inr y) xs ys"
  by (induction xs arbitrary: ys) (auto split: sum.splits)

lemma map_exn_returns:
  "(\<exists>ys. map_exn f xs = Inr ys) \<longleftrightarrow> (\<forall>x\<in>set xs. \<exists>y. f x = Inr y)"
  by (induction xs) (auto split: sum.splits)

lemma error_result_is_error:
  "isError (error_result msg) \<and> content (error_result msg) = [TextContent (Plain msg)]"
  by (simp add: error_result_def)

lemma ok_result_cases:
  assumes "(case x of Inl e \<Rightarrow> Inr (error_result (msg e)) | Inr y \<Rightarrow> Inr (ok_result (f y))) = Inr r"
      and "\<not> isError r"
  shows "\<exists>y. x = Inr y \<and> r = ok_result (f y)"
  using assms by (cases x) (auto simp: error_result_def)

section \<open>Reshaping a media item\<close>

lemma reshape_media_item_base:
  "obj_get (reshape_media_item item) ''id'' = obj_get item ''ratingKey''"
  "obj_get (reshape_media_item item) ''title'' = obj_get item ''title''"
  "obj_get (reshape_media_item item) ''year'' = obj_get item ''year''"
  by (simp_all add: reshape_media_item_def obj_get_def Let_def)

lemma reshape_media_item_keys:
  "map fst (reshape_media_item item) =
     [''id'', ''title'', ''year'', ''type''] @
     (if obj_get item ''type'' = JStr ''movie'' then [''duration'', ''rating'', ''summary'']
      else if obj_get item ''type'' = JStr ''show'' then [''seasons'', ''summary'']
      else [])"
  by (simp add: reshape_media_item_def Let_def)

lemma reshape_media_item_movie:
  "obj_get item ''type'' = JStr ''movie'' \<Longrightarrow>
     obj_get (reshape_media_item item) ''duration'' = obj_get item ''duration'' \<and>
     obj_get (reshape_media_item item) ''rating'' = obj_get item ''rating'' \<and>
     obj_get (reshape_media_item item) ''summary'' = obj_get item ''summary''"
  by (simp add: reshape_media_item_def Let_def) (simp add: obj_get_def)

lemma reshape_media_item_show:
  "obj_get item ''type'' = JStr ''show'' \<Longrightarrow>
     obj_get (reshape_media_item item) ''seasons'' = obj_get item ''childCount'' \<and>
     obj_get (reshape_media_item item) ''summary'' = obj_get item ''summary''"
  by (simp add: reshape_media_item_def Let_def) (simp add: obj_get_def)

text \<open>\<^verbatim>\<open>get-watchlist\<close> applies the same projection to every entry of the watch list.\<close>

lemma get_watchlist_reshapes:
  "lg (Log_info ''Getting watchlist with filter: ${filter || 'none'}'') = None \<Longrightarrow>
   getWatchList c flt = Inr watchlist \<Longrightarrow>
   snd (get_watchlist_handler lg c flt) =
     Inr (ok_result (JObj
       [(''watchlist'', JArr (map (\<lambda>item. JObj (reshape_media_item item)) watchlist))]))"
  by (simp add: get_watchlist_handler_def log_write_returns io_defs)

text \<open>How \<^verbatim>\<open>get-library-contents\<close> settles: what the \<^verbatim>\<open>try\<close> block throws (the first
  log write, the client, or a TypeError of the \<^verbatim>\<open>Metadata\<close> callback) reaches the
  \<^verbatim>\<open>catch\<close> block, from which only an error result returns. So a result that is not
  an error is the one built at the end of the \<^verbatim>\<open>try\<close> block.\<close>

lemma get_library_contents_settles:
  assumes client: "getLibraryContents c libraryId (or_default ty 1)
                     (tagEnum (or_default tg ''newest'')) (or_default st 0) (or_default sz 20)
                   = Inr result"
      and returned: "snd (get_library_contents_handler lg c libraryId ty tg st sz) = Inr r"
      and success: "\<not> isError r"
  shows "\<exists>meta. map_exn normalize_media (items result) = Inr meta \<and>
           r = ok_result (JObj
             [(''media'', JArr (map JObj (map reshape_media_item (items result)))),
              (''totalSize'', JNum (totalSize result)),
              (''object'', JObj
                 [(''MediaContainer'', JObj
                    [(''content'', JStr ''library items''),
                     (''totalSize'', JNum (totalSize result)),
                     (''Metadata'', JArr (map JObj meta))])])])"
  using assms
  by (auto simp: get_library_contents_handler_def Let_def log_write_def io_defs error_result_def
        split: sum.splits option.splits)

lemma get_library_contents_payload:
  assumes client: "getLibraryContents c libraryId (or_default ty 1)
                     (tagEnum (or_default tg ''newest'')) (or_default st 0) (or_default sz 20)
                   = Inr result"
      and returned: "snd (get_library_contents_handler lg c libraryId ty tg st sz) = Inr r"
      and success: "\<not> isError r"
  shows "\<exists>meta. map_exn normalize_media (items result) = Inr meta \<and>
           jprop (payload_of r) ''media'' =
             JArr (map JObj (map reshape_media_item (items result))) \<and>
           jprop (payload_of r) ''totalSize'' = JNum (totalSize result) \<and>
           jpath (payload_of r) [''object'', ''MediaContainer'', ''Metadata''] =
             JArr (map JObj meta)"
proof -
  from get_library_contents_settles [OF client returned success] obtain meta where
    meta: "map_exn normalize_media (items result) = Inr meta" and
    r: "r = ok_result (JObj
          [(''media'', JArr (map JObj (map reshape_media_item (items result)))),
           (''totalSize'', JNum (totalSize result)),
           (''object'', JObj
              [(''MediaContainer'', JObj
                 [(''content'', JStr ''library items''),
                  (''totalSize'', JNum (totalSize result)),
                  (''Metadata'', JArr (map JObj meta))])])])"
    by blast
  show ?thesis
    using meta by (simp add: r ok_result_def payload_of_def obj_get_def)
qed

text \<open>
  C1. When \<^verbatim>\<open>get-library-contents\<close> succeeds, its \<^verbatim>\<open>media\<close> array has one object for
  each raw item the client returned, in the same order. The object's \<^verbatim>\<open>id\<close> is the
  item's \<^verbatim>\<open>ratingKey\<close>, its \<^verbatim>\<open>title\<close> and \<^verbatim>\<open>year\<close> are the item's. Its keys are the
  four base keys, followed by \<^verbatim>\<open>duration\<close>, \<^verbatim>\<open>rating\<close>, \<^verbatim>\<open>summary\<close> exactly when the
  item's type is \<^verbatim>\<open>'movie'\<close>, by \<^verbatim>\<open>seasons\<close> (the item's \<^verbatim>\<open>childCount\<close>) and
  \<^verbatim>\<open>summary\<close> exactly when it is \<^verbatim>\<open>'show'\<close>, and by nothing for any other type.
\<close>

theorem reshaping_preserves_fields:
  assumes client: "getLibraryContents c libraryId (or_default ty 1)
                     (tagEnum (or_default tg ''newest'')) (or_default st 0) (or_default sz 20)
                   = Inr result"
      and returned: "snd (get_library_contents_handler lg c libraryId ty tg st sz) = Inr r"
      and success: "\<not> isError r"
      and index: "i < length (items result)"
  shows "length (jelems (jprop (payload_of r) ''media'')) = length (items result) \<and>
         jprop (jnth (jprop (payload_of r) ''media'') i) ''id'' =
           obj_get (items result ! i) ''ratingKey'' \<and>
         jprop (jnth (jprop (payload_of r) ''media'') i) ''title'' =
           obj_get (items result ! i) ''title'' \<and>
         jprop (jnth (jprop (payload_of r) ''media'') i) ''year'' =
           obj_get (items result ! i) ''year'' \<and>
         jkeys (jnth (jprop (payload_of r) ''media'') i) =
           [''id'', ''title'', ''year'', ''type''] @
           (if obj_get (items result ! i) ''type'' = JStr ''movie''
            then [''duration'', ''rating'', ''summary'']
            else if obj_get (items result ! i) ''type'' = JStr ''show''
            then [''seasons'', ''summary'']
            else []) \<and>
         (obj_get (items result ! i) ''type'' = JStr ''movie'' \<longrightarrow>
            jprop (jnth (jprop (payload_of r) ''media'') i) ''duration'' =
              obj_get (items result ! i) ''duration'' \<and>
            jprop (jnth (jprop (payload_of r) ''media'') i) ''rating'' =
              obj_get (items result ! i) ''rating'' \<and>
            jprop (jnth (jprop (payload_of r) ''media'') i) ''summary'' =
              obj_get (items result ! i) ''summary'') \<and>
         (obj_get (items result ! i) ''type'' = JStr ''show'' \<longrightarrow>
            jprop (jnth (jprop (payload_of r) ''media'') i) ''seasons'' =
              obj_get (items result ! i) ''childCount'' \<and>
            jprop (jnth (jprop (payload_of r) ''media'') i) ''summary'' =
              obj_get (items result ! i) ''summary'')"
proof -
  from get_library_contents_payload [OF client returned success]
  have media: "jprop (payload_of r) ''media'' =
                 JArr (map JObj (map reshape_media_item (items result)))"
    by blast
  have nth: "jnth (jprop (payload_of r) ''media'') i =
               JObj (reshape_media_item (items result ! i))"
    using index by (simp add: media jnth_def)
  show ?thesis
    unfolding nth
    using reshape_media_item_movie [of "items result ! i"]
      reshape_media_item_show [of "items result ! i"]
    by (simp add: media reshape_media_item_base reshape_media_item_keys)
qed

theorem reshaping_preserves_fields_witness:
  "snd (get_library_contents_handler quiet_logger example_client ''1'' None None None None)
     = Inr example_result \<and>
   \<not> isError example_result \<and>
   length (jelems (jprop (payload_of example_result) ''media'')) = 3 \<and>
   jkeys (jnth (jprop (payload_of example_result) ''media'') 0) =
     [''id'', ''title'', ''year'', ''type'', ''duration'', ''rating'', ''summary''] \<and>
   jprop (jnth (jprop (payload_of example_result) ''media'') 0) ''duration'' = JNum 170 \<and>
   jprop (jnth (jprop (payload_of example_result) ''media'') 1) ''id'' = JStr ''22'' \<and>
   jprop (jnth (jprop (payload_of example_result) ''media'') 1) ''seasons'' = JNum 6 \<and>
   jkeys (jnth (jprop (payload_of example_result) ''media'') 2) =
     [''id'', ''title'', ''year'', ''type'']"
proof -
  let ?result = "\<lparr>items =
                 [[(''ratingKey'', JStr ''21''), (''title'', JStr ''Heat''), (''year'', JNum 1995),
                   (''type'', JStr ''movie''), (''duration'', JNum 170),
                   (''Media'', JArr [JObj [(''bitrate'', JNum 1000)],
                                    JObj [(''optimizedForStreaming'', JNum 0)]])],
                  [(''ratingKey'', JStr ''22''), (''title'', JStr ''Lost''), (''year'', JNum 2004),
                   (''type'', JStr ''show''), (''childCount'', JNum 6)],
                  [(''ratingKey'', JStr ''23''), (''title'', JStr ''Trailer''),
                   (''type'', JStr ''clip''), (''duration'', JNum 2)]],
               totalSize = 3\<rparr>"
  have client: "getLibraryContents example_client ''1'' (or_default None 1)
                  (tagEnum (or_default None ''newest'')) (or_default None 0) (or_default None 20)
                = Inr ?result"
    by (simp add: example_client_def)
  have returned: "snd (get_library_contents_handler quiet_logger example_client ''1'' None None None None)
                  = Inr example_result"
    by code_simp
  have success: "\<not> isError example_result"
    by code_simp
  show ?thesis
    using returned success
      reshaping_preserves_fields [OF client returned success, of 0]
      reshaping_preserves_fields [OF client returned success, of 1]
      reshaping_preserves_fields [OF client returned success, of 2]
    by (simp add: obj_get_def)
qed

section \<open>Normalising the Media entries\<close>

lemma ensure_optimized_field:
  assumes "ensure_optimized m = Inr m'"
  shows "jprop m' ''optimizedForStreaming'' =
           (if jprop m ''optimizedForStreaming'' \<noteq> JUndefined
            then jprop m ''optimizedForStreaming'' else JNum 1)"
proof -
  obtain v where v: "get_prop m ''optimizedForStreaming'' = Inr v"
    using assms by (auto simp: ensure_optimized_def split: sum.splits)
  then have "v = jprop m ''optimizedForStreaming''"
    by (rule get_prop_jprop)
  with v assms show ?thesis
    by (auto simp: ensure_optimized_def obj_get_obj_set)
qed

text \<open>An entry makes the callback throw exactly when it is \<^verbatim>\<open>null\<close> or \<^verbatim>\<open>undefined\<close>.\<close>

lemma ensure_optimized_returns:
  "(\<exists>m'. ensure_optimized m = Inr m') \<longleftrightarrow> m \<noteq> JNull \<and> m \<noteq> JUndefined"
  by (cases m) (auto simp: ensure_optimized_def)

lemma normalize_media_array:
  assumes "normalize_media item = Inr item'" and "obj_get item ''Media'' = JArr ms"
  shows "\<exists>ms'. obj_get item' ''Media'' = JArr ms' \<and>
               list_all2 (\<lambda>m m'. ensure_optimized m = Inr m') ms ms'"
  using assms
  by (auto simp: normalize_media_def obj_get_obj_set split: sum.splits dest: map_exn_Inr)

lemma normalize_media_other:
  assumes "normalize_media item = Inr item'" and "\<forall>ms. obj_get item ''Media'' \<noteq> JArr ms"
  shows "item' = (if truthy (obj_get item ''Media'') then item
                  else obj_set item ''Media'' (JArr [JObj [(''optimizedForStreaming'', JNum 1)]]))"
  using assms
  by (cases "obj_get item ''Media''") (auto simp: normalize_media_def)

text \<open>The callback throws exactly for an item whose array \<^verbatim>\<open>Media\<close> holds a
  \<^verbatim>\<open>null\<close> or \<^verbatim>\<open>undefined\<close> entry; then the handler returns an error result.\<close>

lemma normalize_media_returns:
  "(\<exists>item'. normalize_media item = Inr item') \<longleftrightarrow>
   (\<forall>ms. obj_get item ''Media'' = JArr ms \<longrightarrow> JNull \<notin> set ms \<and> JUndefined \<notin> set ms)"
proof (cases "\<exists>ms. obj_get item ''Media'' = JArr ms")
  case True
  then obtain ms where ms: "obj_get item ''Media'' = JArr ms" by blast
  have "(\<exists>item'. normalize_media item = Inr item') \<longleftrightarrow>
        (\<exists>ms'. map_exn ensure_optimized ms = Inr ms')"
    by (auto simp: normalize_media_def ms split: sum.splits)
  also have "\<dots> \<longleftrightarrow> (\<forall>m\<in>set ms. m \<noteq> JNull \<and> m \<noteq> JUndefined)"
    by (simp add: map_exn_returns ensure_optimized_returns)
  finally show ?thesis
    using ms by auto
next
  case False
  then show ?thesis
    by (cases "obj_get item ''Media''") (auto simp: normalize_media_def)
qed

lemma get_library_contents_succeeds:
  assumes written: "lg (Log_info (''Getting library contents for library ${libraryId} '' @
                      ''with type=${type}, tag=${tag}, start=${start}, size=${size}'')) = None"
      and client: "getLibraryContents c libraryId (or_default ty 1)
                     (tagEnum (or_default tg ''newest'')) (or_default st 0) (or_default sz 20)
                   = Inr result"
      and entries: "\<forall>item\<in>set (items result). \<forall>ms.
                      obj_get item ''Media'' = JArr ms \<longrightarrow> JNull \<notin> set ms \<and> JUndefined \<notin> set ms"
  shows "\<exists>r. snd (get_library_contents_handler lg c libraryId ty tg st sz) = Inr r \<and> \<not> isError r"
proof -
  from entries have "\<forall>item\<in>set (items result). \<exists>item'. normalize_media item = Inr item'"
    by (simp add: normalize_media_returns)
  then obtain meta where "map_exn normalize_media (items result) = Inr meta"
    using map_exn_returns [of normalize_media "items result"] by blast
  with written client show ?thesis
    by (simp add: get_library_contents_handler_def Let_def log_write_def io_defs ok_result_def)
qed

lemma normalize_media_entries:
  assumes norm: "normalize_media item = Inr item'"
  shows "(\<forall>entry\<in>set (jelems (obj_get item' ''Media'')).
            jprop entry ''optimizedForStreaming'' \<noteq> JUndefined) \<and>
         (\<forall>originals. obj_get item ''Media'' = JArr originals \<longrightarrow>
            (\<exists>entries. obj_get item' ''Media'' = JArr entries) \<and>
            length (jelems (obj_get item' ''Media'')) = length originals \<and>
            (\<forall>j<length originals.
               jprop (jnth (obj_get item' ''Media'') j) ''optimizedForStreaming'' =
                 (if jprop (originals ! j) ''optimizedForStreaming'' \<noteq> JUndefined
                  then jprop (originals ! j) ''optimizedForStreaming'' else JNum 1))) \<and>
         (\<not> truthy (obj_get item ''Media'') \<longrightarrow>
            obj_get item' ''Media'' = JArr [JObj [(''optimizedForStreaming'', JNum 1)]])"
proof (cases "\<exists>ms. obj_get item ''Media'' = JArr ms")
  case True
  then obtain ms where ms: "obj_get item ''Media'' = JArr ms" by blast
  from normalize_media_array [OF norm ms] obtain entries where
    entries: "obj_get item' ''Media'' = JArr entries" and
    all2: "list_all2 (\<lambda>m m'. ensure_optimized m = Inr m') ms entries"
    by blast
  from all2 have len: "length entries = length ms"
    by (simp add: list_all2_lengthD)
  have each: "jprop (entries ! j) ''optimizedForStreaming'' =
                (if jprop (ms ! j) ''optimizedForStreaming'' \<noteq> JUndefined
                 then jprop (ms ! j) ''optimizedForStreaming'' else JNum 1)"
    if "j < length entries" for j
    using all2 that len by (intro ensure_optimized_field) (simp add: list_all2_conv_all_nth)
  have defined: "jprop entry ''optimizedForStreaming'' \<noteq> JUndefined"
    if "entry \<in> set entries" for entry
  proof -
    from that obtain j where "j < length entries" "entry = entries ! j"
      by (auto simp: in_set_conv_nth)
    with each [of j] show ?thesis by (auto split: if_splits)
  qed
  from ms entries len each defined show ?thesis
    by (simp add: jnth_def)
next
  case False
  then have other: "\<forall>ms. obj_get item ''Media'' \<noteq> JArr ms" by blast
  from normalize_media_other [OF norm other]
  have item': "item' = (if truthy (obj_get item ''Media'') then item
                 else obj_set item ''Media'' (JArr [JObj [(''optimizedForStreaming'', JNum 1)]]))" .
  show ?thesis
  proof (cases "truthy (obj_get item ''Media'')")
    case True
    with item' have "obj_get item' ''Media'' = obj_get item ''Media''"
      by simp
    moreover from other have "jelems (obj_get item ''Media'') = []"
      by (cases "obj_get item ''Media''") auto
    ultimately show ?thesis
      using True other by simp
  next
    case False
    with item' have "obj_get item' ''Media'' = JArr [JObj [(''optimizedForStreaming'', JNum 1)]]"
      by (simp add: obj_get_obj_set)
    moreover have "jprop (JObj [(''optimizedForStreaming'', JNum 1)]) ''optimizedForStreaming''
                     \<noteq> JUndefined"
      by (simp add: obj_get_def)
    ultimately show ?thesis
      using other by simp
  qed
qed

text \<open>
  C2. When \<^verbatim>\<open>get-library-contents\<close> succeeds, \<^verbatim>\<open>object.MediaContainer.Metadata\<close> has one
  item for each raw item, and in each of them every entry of an array \<^verbatim>\<open>Media\<close> has a
  defined \<^verbatim>\<open>optimizedForStreaming\<close>. Where the raw item's \<^verbatim>\<open>Media\<close> was an array, the
  output has an entry for each original entry, whose \<^verbatim>\<open>optimizedForStreaming\<close> is the
  original value when that was defined and 1 when it was not; where the raw item's
  \<^verbatim>\<open>Media\<close> was absent (or another falsy value), the output is the single entry
  \<^verbatim>\<open>{optimizedForStreaming: 1}\<close>.
\<close>

theorem media_entries_are_optimized:
  assumes client: "getLibraryContents c libraryId (or_default ty 1)
                     (tagEnum (or_default tg ''newest'')) (or_default st 0) (or_default sz 20)
                   = Inr result"
      and returned: "snd (get_library_contents_handler lg c libraryId ty tg st sz) = Inr r"
      and success: "\<not> isError r"
      and index: "i < length (items result)"
  shows "length (jelems (jpath (payload_of r) [''object'', ''MediaContainer'', ''Metadata'']))
           = length (items result) \<and>
         (\<forall>entry\<in>set (jelems (jprop (jnth (jpath (payload_of r)
               [''object'', ''MediaContainer'', ''Metadata'']) i) ''Media'')).
            jprop entry ''optimizedForStreaming'' \<noteq> JUndefined) \<and>
         (\<forall>originals. obj_get (items result ! i) ''Media'' = JArr originals \<longrightarrow>
            (\<exists>entries. jprop (jnth (jpath (payload_of r)
               [''object'', ''MediaContainer'', ''Metadata'']) i) ''Media'' = JArr entries) \<and>
            length (jelems (jprop (jnth (jpath (payload_of r)
               [''object'', ''MediaContainer'', ''Metadata'']) i) ''Media'')) = length originals \<and>
            (\<forall>j<length originals.
               jprop (jnth (jprop (jnth (jpath (payload_of r)
                 [''object'', ''MediaContainer'', ''Metadata'']) i) ''Media'') j)
                 ''optimizedForStreaming'' =
                 (if jprop (originals ! j) ''optimizedForStreaming'' \<noteq> JUndefined
                  then jprop (originals ! j) ''optimizedForStreaming'' else JNum 1))) \<and>
         (\<not> truthy (obj_get (items result ! i) ''Media'') \<longrightarrow>
            jprop (jnth (jpath (payload_of r)
               [''object'', ''MediaContainer'', ''Metadata'']) i) ''Media'' =
              JArr [JObj [(''optimizedForStreaming'', JNum 1)]])"
proof -
  from get_library_contents_payload [OF client returned success] obtain meta where
    meta: "map_exn normalize_media (items result) = Inr meta" and
    path: "jpath (payload_of r) [''object'', ''MediaContainer'', ''Metadata''] =
             JArr (map JObj meta)"
    by blast
  from meta have all2:
    "list_all2 (\<lambda>item item'. normalize_media item = Inr item') (items result) meta"
    by (rule map_exn_Inr)
  then have len: "length meta = length (items result)"
    by (simp add: list_all2_lengthD)
  from all2 index have norm: "normalize_media (items result ! i) = Inr (meta ! i)"
    by (simp add: list_all2_conv_all_nth)
  have nth: "jprop (jnth (JArr (map JObj meta)) i) ''Media'' = obj_get (meta ! i) ''Media''"
    using index len by (simp add: jnth_def)
  show ?thesis
    unfolding path nth using normalize_media_entries [OF norm] len
    by simp
qed

theorem media_entries_are_optimized_witness:
  "snd (get_library_contents_handler quiet_logger example_client ''1'' None None None None)
     = Inr example_result \<and>
   \<not> isError example_result \<and>
   length (jelems (jprop (jnth (jpath (payload_of example_result)
      [''object'', ''MediaContainer'', ''Metadata'']) 0) ''Media'')) = 2 \<and>
   jprop (jnth (jprop (jnth (jpath (payload_of example_result)
      [''object'', ''MediaContainer'', ''Metadata'']) 0) ''Media'') 0) ''optimizedForStreaming''
     = JNum 1 \<and>
   jprop (jnth (jprop (jnth (jpath (payload_of example_result)
      [''object'', ''MediaContainer'', ''Metadata'']) 0) ''Media'') 1) ''optimizedForStreaming''
     = JNum 0 \<and>
   jprop (jnth (jpath (payload_of example_result)
      [''object'', ''MediaContainer'', ''Metadata'']) 1) ''Media''
     = JArr [JObj [(''optimizedForStreaming'', JNum 1)]]"
proof -
  let ?result = "\<lparr>items =
                 [[(''ratingKey'', JStr ''21''), (''title'', JStr ''Heat''), (''year'', JNum 1995),
                   (''type'', JStr ''movie''), (''duration'', JNum 170),
                   (''Media'', JArr [JObj [(''bitrate'', JNum 1000)],
                                    JObj [(''optimizedForStreaming'', JNum 0)]])],
                  [(''ratingKey'', JStr ''22''), (''title'', JStr ''Lost''), (''year'', JNum 2004),
                   (''type'', JStr ''show''), (''childCount'', JNum 6)],
                  [(''ratingKey'', JStr ''23''), (''title'', JStr ''Trailer''),
                   (''type'', JStr ''clip''), (''duration'', JNum 2)]],
               totalSize = 3\<rparr>"
  have client: "getLibraryContents example_client ''1'' (or_default None 1)
                  (tagEnum (or_default None ''newest'')) (or_default None 0) (or_default None 20)
                = Inr ?result"
    by (simp add: example_client_def)
  have returned: "snd (get_library_contents_handler quiet_logger example_client ''1'' None None None None)
                  = Inr example_result"
    by code_simp
  have success: "\<not> isError example_result"
    by code_simp
  show ?thesis
    using returned success
      media_entries_are_optimized [OF client returned success, of 0]
      media_entries_are_optimized [OF client returned success, of 1]
    by (simp add: obj_get_def)
qed

section \<open>Pagination\<close>

lemma to_integer_of_int: "to_integer (of_int i) = i"
  by (simp add: to_integer_def)

lemma slice_length:
  "0 \<le> n \<Longrightarrow> int (length (slice xs (of_int start) (of_int start + of_int n))) \<le> n"
proof -
  have sum: "(of_int start + of_int n :: rat) = of_int (start + n)"
    by simp
  assume "0 \<le> n"
  then show ?thesis
    unfolding sum slice_def to_integer_of_int by (auto simp: Let_def)
qed

lemma mock_contents_length: "length mock_contents = 7"
  by (simp add: mock_contents_def)

lemma mock_pagination:
  "0 \<le> n \<Longrightarrow>
     \<exists>page. MockPlexClient_getLibraryContents libraryId ty tg (of_int start) (of_int n)
              = Inr page \<and>
            int (length (items page)) \<le> n \<and> totalSize page = 7"
  by (simp add: MockPlexClient_getLibraryContents_def Let_def slice_length mock_contents_length)

lemma client_forwards_page:
  assumes "fetch_library up (parseInt libraryId) ty st sz = Inr response"
      and "ok response"
      and "json response =
             Inr (PlexResponse (Some (PlexResponse_MediaContainer (Some found) reported)))"
  shows "PlexClient_getLibraryContents up libraryId ty tg st sz =
           ([Fetch_library (parseInt libraryId) ty st sz],
            Inr \<lparr>items = found,
                 totalSize = (case reported of
                                None \<Rightarrow> of_nat (length found)
                              | Some t \<Rightarrow> if t = 0 then of_nat (length found) else t)\<rparr>)"
  using assms
  by (simp add: PlexClient_getLibraryContents_def Let_def io_defs or_default_def
        split: option.splits)

text \<open>The section key of a request is the double that \<^verbatim>\<open>parseInt\<close> returns: above
  \<open>2 ^ 53\<close> it is not always the number written in the identifier.\<close>

lemma parseInt_examples:
  "parseInt ''7'' = Finite 7"
  "parseInt ''11'' = Finite 11"
  "parseInt ''1'' = Finite 1"
  "parseInt '' -12abc'' = Finite (- 12)"
  "parseInt ''abc'' = NaN"
  "parseInt ''9007199254740993'' = Finite 9007199254740992"
  "parseInt ''9007199254740995'' = Finite 9007199254740996"
  "parseInt (''1'' @ replicate 309 (CHR ''0'')) = PosInfinity"
  by code_simp+

lemma paged_items: "slice example_items 0 2 = take 2 example_items"
  by (simp add: slice_def to_integer_def Let_def example_items_def)

lemma mock_fractional_page: "slice mock_contents (- 3) (- 3 + 1 / 2) = [mock_contents ! 4]"
proof -
  have stop: "to_integer (- 3 + 1 / 2) = - 2"
    by (simp add: to_integer_def) linarith
  have start: "to_integer (- 3) = - 3"
    by (simp add: to_integer_def)
  have "take 1 (drop 4 mock_contents) = [mock_contents ! 4]"
    by (simp add: mock_contents_def)
  then show ?thesis
    unfolding slice_def start stop by (simp add: Let_def mock_contents_length)
qed

text \<open>
  C3, as stated, fails, in both of its halves and for both clients.
  \<^verbatim>\<open>PlexClient.getLibraryContents\<close> sends start and size to the server and returns what
  the server answers. A server whose library holds three items and that answers a request
  of size 2 with the first two items and no \<^verbatim>\<open>totalSize\<close> makes it return a
  \<^verbatim>\<open>totalSize\<close> of 2, the length of the page and not the count of the library. A server
  that ignores the size and answers with the three items makes it return three items for
  the size 2. And \<^verbatim>\<open>MockPlexClient.getLibraryContents\<close> with start \<open>-3\<close> and size
  \<open>1/2\<close> returns one item, the fifth of its fixture: \<^verbatim>\<open>slice(-3, -2.5)\<close> cuts the
  fraction of its bounds off.
\<close>

theorem pagination_counterexample:
  "length example_items = 3 \<and>
   snd (PlexClient_getLibraryContents paging_upstream ''1'' 1 Newest 0 2) =
     Inr \<lparr>items = take 2 example_items, totalSize = 2\<rparr> \<and>
   snd (PlexClient_getLibraryContents example_upstream ''1'' 1 Newest 0 2) =
     Inr \<lparr>items = example_items, totalSize = 3\<rparr> \<and>
   (2 :: rat) < of_nat (length example_items) \<and>
   MockPlexClient_getLibraryContents ''1'' 1 Newest (- 3) (1 / 2) =
     Inr \<lparr>items = [mock_contents ! 4], totalSize = 7\<rparr> \<and>
   (1 / 2 :: rat) < of_nat (length [mock_contents ! 4])"
proof -
  have count: "length example_items = 3"
    by (simp add: example_items_def)
  have paged: "snd (PlexClient_getLibraryContents paging_upstream ''1'' 1 Newest 0 2) =
                 Inr \<lparr>items = take 2 example_items, totalSize = 2\<rparr>"
    by (simp add: PlexClient_getLibraryContents_def Let_def io_defs or_default_def
          paging_upstream_def paged_items count)
  have ignored: "snd (PlexClient_getLibraryContents example_upstream ''1'' 1 Newest 0 2) =
                   Inr \<lparr>items = example_items, totalSize = 3\<rparr>"
    by (simp add: PlexClient_getLibraryContents_def Let_def io_defs or_default_def
          example_upstream_def count)
  have mock: "MockPlexClient_getLibraryContents ''1'' 1 Newest (- 3) (1 / 2) =
                Inr \<lparr>items = [mock_contents ! 4], totalSize = 7\<rparr>"
    unfolding MockPlexClient_getLibraryContents_def Let_def mock_fractional_page
    by (simp add: mock_contents_length)
  from count paged ignored mock show ?thesis
    by simp
qed

text \<open>
  C3, amended. \<^verbatim>\<open>MockPlexClient.getLibraryContents\<close> with an integer start and an integer
  size \<open>n \<ge> 0\<close> returns at most \<open>n\<close> items, and its \<^verbatim>\<open>totalSize\<close> is 7, the number of
  fixture items, whatever the page. \<^verbatim>\<open>PlexClient.getLibraryContents\<close>, for any start and
  size, forwards them in the request and returns the \<^verbatim>\<open>Metadata\<close> list of a successful
  response unchanged; its \<^verbatim>\<open>totalSize\<close> is the response's when that is present and not
  zero, and the number of returned items otherwise.
\<close>

theorem pagination_by_client:
  "(0 \<le> n \<longrightarrow>
      (\<exists>page. MockPlexClient_getLibraryContents libraryId ty tg (of_int start) (of_int n)
               = Inr page \<and>
              int (length (items page)) \<le> n \<and>
              totalSize page = of_nat (length mock_contents) \<and> totalSize page = 7)) \<and>
   (fetch_library up (parseInt libraryId) ty st sz = Inr response \<and> ok response \<and>
    json response = Inr (PlexResponse (Some (PlexResponse_MediaContainer (Some found) reported)))
    \<longrightarrow>
      PlexClient_getLibraryContents up libraryId ty tg st sz =
        ([Fetch_library (parseInt libraryId) ty st sz],
         Inr \<lparr>items = found,
              totalSize = (case reported of
                             None \<Rightarrow> of_nat (length found)
                           | Some t \<Rightarrow> if t = 0 then of_nat (length found) else t)\<rparr>))"
  using mock_pagination [of n libraryId ty tg start]
    client_forwards_page [of up libraryId ty st sz response found reported tg]
  by (auto simp: mock_contents_length)

theorem pagination_by_client_witness:
  "(0::int) \<le> 5 \<and>
   (\<exists>page. MockPlexClient_getLibraryContents ''1'' 1 Newest 5 5 = Inr page \<and>
           int (length (items page)) \<le> 5 \<and> totalSize page = 7) \<and>
   fetch_library example_upstream (parseInt ''1'') 1 0 5 =
     Inr \<lparr>ok = True, statusText = ''OK'',
          json = Inr (PlexResponse (Some
            (PlexResponse_MediaContainer (Some example_items) None)))\<rparr> \<and>
   PlexClient_getLibraryContents example_upstream ''1'' 1 Newest 0 5 =
     ([Fetch_library (Finite 1) 1 0 5], Inr \<lparr>items = example_items, totalSize = 3\<rparr>)"
proof -
  have response: "fetch_library example_upstream (parseInt ''1'') 1 0 5 =
     Inr \<lparr>ok = True, statusText = ''OK'',
          json = Inr (PlexResponse (Some
            (PlexResponse_MediaContainer (Some example_items) None)))\<rparr>"
    by (simp add: example_upstream_def)
  note mock = pagination_by_client
    [where n = 5 and libraryId = "''1''" and ty = 1 and tg = Newest and start = 5,
     THEN conjunct1, rule_format]
  note forwarded = pagination_by_client
    [where libraryId = "''1''" and ty = 1 and tg = Newest and st = 0 and sz = 5
       and up = example_upstream and found = example_items and reported = None
       and response = "\<lparr>ok = True, statusText = ''OK'',
         json = Inr (PlexResponse (Some
           (PlexResponse_MediaContainer (Some example_items) None)))\<rparr>",
     THEN conjunct2, rule_format]
  from mock have page:
    "\<exists>page. MockPlexClient_getLibraryContents ''1'' 1 Newest 5 5 = Inr page \<and>
            int (length (items page)) \<le> 5 \<and> totalSize page = 7"
    by auto
  from forwarded response have
    "PlexClient_getLibraryContents example_upstream ''1'' 1 Newest 0 5 =
       ([Fetch_library (Finite 1) 1 0 5], Inr \<lparr>items = example_items, totalSize = 3\<rparr>)"
    by (simp add: parseInt_examples example_items_def)
  with page response show ?thesis
    by simp
qed

section \<open>Failures at the tool boundary\<close>

text \<open>When the log write of its \<^verbatim>\<open>catch\<close> block returns, a handler whose client call
  fails returns an error result: the message is the handler's prefix followed by the
  message of what the \<^verbatim>\<open>try\<close> block threw (the client's failure or, before it, that of
  the first log write).\<close>

lemma get_libraries_failed:
  "lg (Log_info ''Getting libraries...'') = None \<Longrightarrow>
   lg (Log_error ''Error getting libraries:'') = None \<Longrightarrow>
   getLibraries c = Inl e \<Longrightarrow>
   snd (get_libraries_handler lg c) =
     Inr (error_result (''Error getting libraries: '' @ error_message e))"
  by (simp add: get_libraries_handler_def log_write_def io_defs)

lemma get_library_contents_failed:
  "lg (Log_error ''Error getting library contents for ${libraryId}:'') = None \<Longrightarrow>
   getLibraryContents c libraryId (or_default ty 1) (tagEnum (or_default tg ''newest''))
      (or_default st 0) (or_default sz 20) = Inl e \<Longrightarrow>
   \<exists>thrown. snd (get_library_contents_handler lg c libraryId ty tg st sz) =
     Inr (error_result (''Error getting library contents: '' @ error_message thrown))"
  by (auto simp: get_library_contents_handler_def Let_def log_write_def io_defs
        split: option.splits)

lemma get_movies_failed:
  "lg (Log_error ''Error getting movies:'') = None \<Longrightarrow>
   getMovies c = Inl e \<Longrightarrow>
   \<exists>thrown. snd (get_movies_handler lg c) =
     Inr (error_result (''Error getting movies: '' @ error_message thrown))"
  by (auto simp: get_movies_handler_def log_write_def io_defs split: option.splits)

lemma get_seasons_failed:
  "lg (Log_error ''Error getting seasons for show ${showId}:'') = None \<Longrightarrow>
   getSeasons c showId = Inl e \<Longrightarrow>
   \<exists>thrown. snd (get_seasons_handler lg c showId) =
     Inr (error_result (''Error getting seasons: '' @ error_message thrown))"
  by (auto simp: get_seasons_handler_def log_write_def io_defs split: option.splits)

lemma get_episodes_failed:
  "lg (Log_error ''Error getting episodes for season ${seasonId}:'') = None \<Longrightarrow>
   getEpisodes c seasonId = Inl e \<Longrightarrow>
   \<exists>thrown. snd (get_episodes_handler lg c seasonId) =
     Inr (error_result (''Error getting episodes: '' @ error_message thrown))"
  by (auto simp: get_episodes_handler_def log_write_def io_defs split: option.splits)

lemma search_failed:
  "lg (Log_error (''Error searching for '' @ [CHR 0x22] @ ''${query}'' @ [CHR 0x22] @ '':''))
     = None \<Longrightarrow>
   search c query = Inl e \<Longrightarrow>
   \<exists>thrown. snd (search_handler lg c query) =
     Inr (error_result
       (if query = [] \<or> trim query = [] then ''Error: Search query is required''
        else ''Error searching: '' @ error_message thrown))"
  by (auto simp: search_handler_def log_write_def io_defs split: option.splits)

lemma get_watchlist_failed:
  "lg (Log_error ''Error getting watchlist with filter ${filter || 'none'}:'') = None \<Longrightarrow>
   getWatchList c flt = Inl e \<Longrightarrow>
   \<exists>thrown. snd (get_watchlist_handler lg c flt) =
     Inr (error_result (''Error getting watchlist: '' @ error_message thrown))"
  by (auto simp: get_watchlist_handler_def log_write_def io_defs split: option.splits)

lemma get_devices_failed:
  "lg (Log_error ''Error getting devices:'') = None \<Longrightarrow>
   getDevices c = Inl e \<Longrightarrow>
   \<exists>thrown. snd (get_devices_handler lg c) =
     Inr (error_result (''Error getting devices: '' @ error_message thrown))"
  by (auto simp: get_devices_handler_def log_write_def io_defs split: option.splits)

text \<open>When the log write of its \<^verbatim>\<open>catch\<close> block returns, a handler returns a result: what
  its \<^verbatim>\<open>try\<close> block throws, from a log write, the client or the reshaping, reaches the
  \<^verbatim>\<open>catch\<close> block. (The first log write of \<^verbatim>\<open>get-libraries\<close> stands before its
  \<^verbatim>\<open>try\<close> block.)\<close>

lemma catch_returns:
  "lg call = None \<Longrightarrow>
   \<exists>r. snd (io_bind (log_write lg call) (\<lambda>_. io_return (error_result msg))) = Inr r"
  by (simp add: log_write_def io_defs)

lemma handler_returns:
  "lg (Log_info ''Getting libraries...'') = None \<Longrightarrow>
   lg (Log_error ''Error getting libraries:'') = None \<Longrightarrow>
     \<exists>r. snd (get_libraries_handler lg c) = Inr r"
  "lg (Log_error ''Error getting library contents for ${libraryId}:'') = None \<Longrightarrow>
     \<exists>r. snd (get_library_contents_handler lg c libraryId ty tg st sz) = Inr r"
  "lg (Log_error ''Error getting movies:'') = None \<Longrightarrow>
     \<exists>r. snd (get_movies_handler lg c) = Inr r"
  "lg (Log_error ''Error getting seasons for show ${showId}:'') = None \<Longrightarrow>
     \<exists>r. snd (get_seasons_handler lg c showId) = Inr r"
  "lg (Log_error ''Error getting episodes for season ${seasonId}:'') = None \<Longrightarrow>
     \<exists>r. snd (get_episodes_handler lg c seasonId) = Inr r"
  "lg (Log_error (''Error searching for '' @ [CHR 0x22] @ ''${query}'' @ [CHR 0x22] @ '':''))
     = None \<Longrightarrow>
     \<exists>r. snd (search_handler lg c query) = Inr r"
  "lg (Log_error ''Error getting watchlist with filter ${filter || 'none'}:'') = None \<Longrightarrow>
     \<exists>r. snd (get_watchlist_handler lg c flt) = Inr r"
  "lg (Log_error ''Error getting devices:'') = None \<Longrightarrow>
     \<exists>r. snd (get_devices_handler lg c) = Inr r"
proof -
  show "\<exists>r. snd (get_libraries_handler lg c) = Inr r"
    if "lg (Log_info ''Getting libraries...'') = None"
      and "lg (Log_error ''Error getting libraries:'') = None"
  proof -
    have "get_libraries_handler lg c =
            try_catch
              (io_bind (io_call Call_getLibraries (getLibraries c)) (\<lambda>libraries.
               io_bind (log_write lg (Log_info ''Libraries retrieved'')) (\<lambda>_.
               io_return (ok_result (JObj
                 [(''libraries'', JArr (map (\<lambda>lib. JObj
                     [(''id'', JStr (key lib)),
                      (''title'', JStr (title lib)),
                      (''type'', JStr (type lib))]) libraries))])))))
              (\<lambda>error.
               io_bind (log_write lg (Log_error ''Error getting libraries:'')) (\<lambda>_.
               io_return (error_result (''Error getting libraries: '' @ error_message error))))"
      using that(1) by (simp add: get_libraries_handler_def log_write_returns io_bind_def)
    then show ?thesis
      using that(2) by (simp add: try_catch_returns catch_returns)
  qed
qed (simp_all add: get_library_contents_handler_def get_movies_handler_def
       get_seasons_handler_def get_episodes_handler_def search_handler_def
       get_watchlist_handler_def get_devices_handler_def Let_def
       try_catch_returns catch_returns)

lemma map_sum_failed: "map_sum id f r = Inl e \<longleftrightarrow> r = Inl e"
  by (cases r) auto

text \<open>
  C4, as stated, fails: the \<^verbatim>\<open>catch\<close> block of every handler first calls
  \<^verbatim>\<open>logger.error\<close>, which appends to the log file and throws when the write fails, and
  what it throws escapes the handler. With a client whose call fails and a file system on
  which the writes of \<^verbatim>\<open>logger.error\<close> throw, \<^verbatim>\<open>get-libraries\<close> and
  \<^verbatim>\<open>get-library-contents\<close> call the client and then throw the write's error instead of
  returning a result.
\<close>

theorem tool_failure_escapes:
  "delegated failing_client Get_libraries = Inl (Error ''connect ECONNREFUSED'') \<and>
   call_tool error_log_fails failing_client Get_libraries =
     ([Call_getLibraries], Inl (Error ''ENOSPC: no space left on device, write'')) \<and>
   delegated failing_client (Get_library_contents ''1'' None None None None) =
     Inl (Error ''connect ECONNREFUSED'') \<and>
   call_tool error_log_fails failing_client (Get_library_contents ''1'' None None None None) =
     ([Call_getLibraryContents ''1'' 1 Newest 0 20],
      Inl (Error ''ENOSPC: no space left on device, write''))"
  by (simp add: failing_client_def error_log_fails_def get_libraries_handler_def
        get_library_contents_handler_def Let_def log_write_def io_defs or_default_def
        tagEnum_def)

text \<open>
  C4, amended. For every tool and every argument, if the log write in the \<^verbatim>\<open>catch\<close>
  block of the tool's handler returns (and, for \<^verbatim>\<open>get-libraries\<close>, the log write that
  stands before its \<^verbatim>\<open>try\<close> block), the handler returns a result and throws nothing;
  and if the client call it delegates to fails, the result carries \<^verbatim>\<open>isError: true\<close> and
  one text entry with a non-empty message.
\<close>

theorem tool_failure_is_reported:
  assumes caught: "lg (catch_log req) = None"
      and entered: "req = Get_libraries \<longrightarrow> lg (Log_info ''Getting libraries...'') = None"
  shows "\<exists>r. snd (call_tool lg c req) = Inr r \<and>
           (\<forall>e. delegated c req = Inl e \<longrightarrow>
                isError r \<and> (\<exists>msg. msg \<noteq> [] \<and> content r = [TextContent (Plain msg)]))"
proof (cases req)
  case Get_libraries
  with assms show ?thesis
    using handler_returns(1) [of lg c] get_libraries_failed [of lg c]
    by (auto simp: map_sum_failed error_result_def)
next
  case (Get_library_contents libraryId ty tg st sz)
  with assms show ?thesis
    using handler_returns(2) [of lg c libraryId ty tg st sz]
      get_library_contents_failed [of lg c libraryId ty tg st sz]
    by (auto simp: map_sum_failed error_result_def)
next
  case Get_movies
  with assms show ?thesis
    using handler_returns(3) [of lg c] get_movies_failed [of lg c]
    by (auto simp: map_sum_failed error_result_def)
next
  case (Get_seasons showId)
  with assms show ?thesis
    using handler_returns(4) [of lg c showId] get_seasons_failed [of lg c showId]
    by (auto simp: map_sum_failed error_result_def)
next
  case (Get_episodes seasonId)
  with assms show ?thesis
    using handler_returns(5) [of lg c seasonId] get_episodes_failed [of lg c seasonId]
    by (auto simp: map_sum_failed error_result_def)
next
  case (Search query)
  with assms show ?thesis
    using handler_returns(6) [of lg c query] search_failed [of lg c query]
    by (auto simp: map_sum_failed error_result_def)
next
  case (Get_watchlist flt)
  with assms show ?thesis
    using handler_returns(7) [of lg c flt] get_watchlist_failed [of lg c flt]
    by (auto simp: map_sum_failed error_result_def)
next
  case Get_devices
  with assms show ?thesis
    using handler_returns(8) [of lg c] get_devices_failed [of lg c]
    by (auto simp: map_sum_failed error_result_def)
qed

theorem tool_failure_is_reported_witness:
  "quiet_logger (catch_log Get_libraries) = None \<and>
   quiet_logger (Log_info ''Getting libraries...'') = None \<and>
   delegated failing_client Get_libraries = Inl (Error ''connect ECONNREFUSED'') \<and>
   (\<exists>r. snd (call_tool quiet_logger failing_client Get_libraries) = Inr r \<and> isError r \<and>
        (\<exists>msg. msg \<noteq> [] \<and> content r = [TextContent (Plain msg)]))"
proof -
  have caught: "quiet_logger (catch_log Get_libraries) = None"
    by (simp add: quiet_logger_def)
  have entered: "Get_libraries = Get_libraries \<longrightarrow>
                   quiet_logger (Log_info ''Getting libraries...'') = None"
    by (simp add: quiet_logger_def)
  have failed: "delegated failing_client Get_libraries = Inl (Error ''connect ECONNREFUSED'')"
    by (simp add: failing_client_def)
  from tool_failure_is_reported [OF caught entered, of failing_client] failed caught entered
  show ?thesis
    by blast
qed

section \<open>The search query\<close>

lemma trim_blank: "trim s = [] \<longleftrightarrow> (\<forall>c\<in>set s. is_js_whitespace c)"
proof -
  have "(\<forall>x\<in>set (dropWhile is_js_whitespace s). is_js_whitespace x)
          \<longleftrightarrow> dropWhile is_js_whitespace s = []"
    using hd_dropWhile [of is_js_whitespace s]
    by (cases "dropWhile is_js_whitespace s") (auto dest: set_dropWhileD)
  then show ?thesis
    by (simp add: trim_def)
qed

text \<open>
  C5. For a query that is empty or consists only of white space (the code units that
  \<^verbatim>\<open>trim\<close> removes), \<^verbatim>\<open>search\<close> returns the error-flagged result
  \<^verbatim>\<open>Error: Search query is required\<close> and issues no call on the client (and none
  on the logger: the check stands before the first log call).
\<close>

theorem blank_query_is_rejected:
  assumes "\<forall>c\<in>set query. is_js_whitespace c"
  shows "search_handler lg plexClient query =
           ([], Inr (error_result ''Error: Search query is required'')) \<and>
         isError (error_result ''Error: Search query is required'')"
  using assms by (simp add: search_handler_def io_defs trim_blank error_result_def)

theorem blank_query_is_rejected_witness:
  "is_js_whitespace CHR '' '' \<and> is_js_whitespace (CHR 0x09) \<and>
   search_handler quiet_logger (MockPlexClient 0) [CHR '' '', CHR 0x09] =
     ([], Inr (error_result ''Error: Search query is required'')) \<and>
   search_handler quiet_logger (MockPlexClient 0) [] =
     ([], Inr (error_result ''Error: Search query is required''))"
proof -
  have blank: "\<forall>c\<in>set [CHR '' '', CHR 0x09]. is_js_whitespace c"
    by (simp add: is_js_whitespace_def)
  have empty: "\<forall>c\<in>set ([] :: string). is_js_whitespace c"
    by simp
  from blank blank_query_is_rejected [OF blank, of quiet_logger "MockPlexClient 0"]
    blank_query_is_rejected [OF empty, of quiet_logger "MockPlexClient 0"]
  show ?thesis
    by simp
qed

section \<open>The tag\<close>




section \<open>The watch list of the mock\<close>

lemma toLowerCase_all: "toLowerCase ''all'' = ''all''"
  by code_simp

lemma toLowerCase_available: "toLowerCase ''available'' = ''available''"
  by code_simp

lemma mock_available_ids:
  "ratingKeys (filter (\<lambda>item. obj_get item ''ratingKey'' = JStr ''501''
                            \<or> obj_get item ''ratingKey'' = JStr ''503'') mock_watchlist)
     \<subset> ratingKeys mock_watchlist"
  by code_simp

text \<open>
  C7. \<^verbatim>\<open>MockPlexClient.getWatchList\<close> returns the whole fixture without a filter and
  with the filter \<^verbatim>\<open>'all'\<close>; with the filter \<^verbatim>\<open>'available'\<close> the ids it returns are a
  strict subset of the ids of the whole fixture.
\<close>

theorem available_watchlist_is_strict_subset:
  "MockPlexClient_getWatchList None = Inr mock_watchlist \<and>
   MockPlexClient_getWatchList (Some ''all'') = Inr mock_watchlist \<and>
   (\<exists>available. MockPlexClient_getWatchList (Some ''available'') = Inr available \<and>
                 ratingKeys available \<subset> ratingKeys mock_watchlist)"
  using mock_available_ids
  by (simp add: MockPlexClient_getWatchList_def toLowerCase_all toLowerCase_available)

section \<open>Movies\<close>

text \<open>\<^verbatim>\<open>Promise.all\<close> rejects with the rejection that settles first, which need not be
  the first of the list.\<close>

lemma promise_all_examples:
  "snd (promise_all (\<lambda>i. i) [([a], Inl (Error ''first'')), ([b], Inr x),
          ([c], Inl (Error ''third''))]) = Inl (Error ''first'')"
  "snd (promise_all (\<lambda>i. 2 - i) [([a], Inl (Error ''first'')), ([b], Inr x),
          ([c], Inl (Error ''third''))]) = Inl (Error ''third'')"
  "promise_all t [([a], Inr x), ([b], Inr y)] = ([a, b], Inr [x, y])"
  by (simp_all add: promise_all_def)




section \<open>Playback\<close>







section \<open>Messages before a connection\<close>

lemma serve_posts_without_transport:
  "sseTransport st = None \<Longrightarrow>
   serve st (map POST_messages bodies) =
     (st, map (\<lambda>body. [Respond_json 400
                          (JObj [(''error'', JStr ''No active SSE connection'')])]) bodies)"
  by (induction bodies) auto

text \<open>
  C10. From the start of the server and as long as no \<^verbatim>\<open>GET /sse\<close> has arrived, every
  \<^verbatim>\<open>POST /messages\<close> is answered with status 400 and the JSON body
  \<^verbatim>\<open>{"error": "No active SSE connection"}\<close>, and with nothing else: no message is handed to
  a transport, and the server's state does not change.
\<close>

theorem post_before_sse_is_rejected:
  "serve initial_state (map POST_messages bodies) =
     (initial_state,
      map (\<lambda>body. [Respond_json 400
                      (JObj [(''error'', JStr ''No active SSE connection'')])]) bodies)"
  by (rule serve_posts_without_transport) (simp add: initial_state_def)

end
